theory Spec2Isabelle
  imports Main "HOL-Library.Sublist" "HOL-Library.Char_ord" "HOL-Library.List_Lexorder"
begin

section \<open>Python strings\<close>

text \<open>
  The migration tool \<^verbatim>\<open>hotfix/convert-rtconfig.py\<close> works on Python strings. A string is
  modelled as a \<^typ>\<open>string\<close> over the ASCII alphabet: the character classes below are the
  ASCII part of Python's \<^verbatim>\<open>\s\<close>, \<^verbatim>\<open>\w\<close> and \<^verbatim>\<open>str.isspace\<close>; a character
  outside ASCII counts as neither a word character nor white space. Text that the tool
  writes with characters outside ASCII (its Chinese comments and messages) is carried as
  its UTF-8 bytes.
\<close>

definition nl :: char where "nl = CHR 0x0A"
definition sq :: char where "sq = CHR 0x27"
definition dq :: char where "dq = CHR 0x22"
definition bsl :: char where "bsl = CHR 0x5C"
definition tab :: char where "tab = CHR 0x09"

definition utf8 :: "nat list \<Rightarrow> string" where
  "utf8 bs = map char_of bs"

definition is_space :: "char \<Rightarrow> bool" where
  "is_space c = (let n = (of_char c :: nat) in (9 \<le> n \<and> n \<le> 13) \<or> (28 \<le> n \<and> n \<le> 32))"

definition is_word :: "char \<Rightarrow> bool" where
  "is_word c = (let n = (of_char c :: nat) in
     (48 \<le> n \<and> n \<le> 57) \<or> (65 \<le> n \<and> n \<le> 90) \<or> n = 95 \<or> (97 \<le> n \<and> n \<le> 122))"

definition lower :: "char \<Rightarrow> char" where
  "lower c = (let n = (of_char c :: nat) in if 65 \<le> n \<and> n \<le> 90 then char_of (n + 32) else c)"

text \<open>\<^verbatim>\<open>sub in s\<close> on strings: \<^term>\<open>sublist sub s\<close>, a contiguous occurrence.\<close>

definition py_in :: "string \<Rightarrow> string \<Rightarrow> bool" where
  "py_in sub s = sublist sub s"

text \<open>\<^verbatim>\<open>s.strip()\<close> and \<^verbatim>\<open>s.strip(chars)\<close>.\<close>

definition strip_by :: "(char \<Rightarrow> bool) \<Rightarrow> string \<Rightarrow> string" where
  "strip_by P s = rev (dropWhile P (rev (dropWhile P s)))"

definition py_strip :: "string \<Rightarrow> string" where
  "py_strip s = strip_by is_space s"

definition py_strip_chars :: "string \<Rightarrow> string \<Rightarrow> string" where
  "py_strip_chars chars s = strip_by (\<lambda>c. c \<in> set chars) s"

text \<open>\<^verbatim>\<open>s.replace(old, new)\<close> for a non-empty \<^verbatim>\<open>old\<close>: the occurrences are replaced from
  the left, without overlap. (Every \<^verbatim>\<open>old\<close> the tool passes is a non-empty constant; an
  empty one is left alone here.)\<close>

fun py_replace_fuel :: "nat \<Rightarrow> string \<Rightarrow> string \<Rightarrow> string \<Rightarrow> string" where
  "py_replace_fuel 0 old new s = s"
| "py_replace_fuel (Suc n) old new s =
     (case s of [] \<Rightarrow> []
      | x # xs \<Rightarrow> if prefix old s then new @ py_replace_fuel n old new (drop (length old) s)
                 else x # py_replace_fuel n old new xs)"

definition py_replace :: "string \<Rightarrow> string \<Rightarrow> string \<Rightarrow> string" where
  "py_replace old new s = (if old = [] then s else py_replace_fuel (length s) old new s)"

text \<open>\<^verbatim>\<open>s.find(sub)\<close>: the first index of an occurrence, or \<open>-1\<close>.\<close>

fun find_from :: "string \<Rightarrow> string \<Rightarrow> int \<Rightarrow> int" where
  "find_from sub [] i = (if sub = [] then i else -1)"
| "find_from sub (x # xs) i = (if prefix sub (x # xs) then i else find_from sub xs (i + 1))"

definition py_find :: "string \<Rightarrow> string \<Rightarrow> int" where
  "py_find s sub = find_from sub s 0"

text \<open>Python's slice bounds: a negative bound counts from the end, and both are clipped
  to the string.\<close>

definition adjust_index :: "nat \<Rightarrow> int \<Rightarrow> nat" where
  "adjust_index len i = (if i < 0 then nat (int len + i) else min len (nat i))"

definition py_slice :: "string \<Rightarrow> int \<Rightarrow> int \<Rightarrow> string" where
  "py_slice s a b = (let lo = adjust_index (length s) a; hi = adjust_index (length s) b
                     in take (hi - lo) (drop lo s))"

text \<open>\<^verbatim>\<open>s.rfind(c, 0, hi)\<close> for a one-character \<^verbatim>\<open>c\<close>: the last index below the bound
  that holds \<^verbatim>\<open>c\<close>, or \<open>-1\<close>.\<close>

fun last_index :: "char \<Rightarrow> string \<Rightarrow> int \<Rightarrow> int \<Rightarrow> int" where
  "last_index c [] i found = found"
| "last_index c (x # xs) i found = last_index c xs (i + 1) (if x = c then i else found)"

definition py_rfind_char :: "string \<Rightarrow> char \<Rightarrow> int \<Rightarrow> int" where
  "py_rfind_char s c hi = last_index c (take (adjust_index (length s) hi) s) 0 (-1)"

text \<open>\<^verbatim>\<open>sep.join(lines)\<close>.\<close>

fun py_join :: "string \<Rightarrow> string list \<Rightarrow> string" where
  "py_join sep [] = []"
| "py_join sep [l] = l"
| "py_join sep (l # m # ls) = l @ sep @ py_join sep (m # ls)"

section \<open>Regular expressions\<close>

text \<open>
  The tool's patterns are matched by Python's \<^verbatim>\<open>re\<close>, a backtracking matcher. Its patterns
  repeat single character classes only, so a pattern is a sequence of items: a class, a
  repeated class (at least \<open>mn\<close> times, greedy or lazy), an optional class, the marks of
  group 1, a lookahead \<^verbatim>\<open>(?=a|b|...)\<close>, an alternation \<^verbatim>\<open>(?:a|b|...)\<close>, and the anchors
  \<^verbatim>\<open>$\<close> (with and without \<^verbatim>\<open>re.MULTILINE\<close>) and \<^verbatim>\<open>\Z\<close>. \<open>ChrI\<close> is a literal under
  \<^verbatim>\<open>re.IGNORECASE\<close>, \<open>AnyC\<close> the dot under \<^verbatim>\<open>re.DOTALL\<close>, \<open>Dot\<close> the dot without it.
\<close>

datatype cset = Chr char | ChrI char | AnyC | Dot | Space | Word | Or cset cset | Neg cset

primrec mem :: "cset \<Rightarrow> char \<Rightarrow> bool" where
  "mem (Chr a) c = (c = a)"
| "mem (ChrI a) c = (lower c = lower a)"
| "mem AnyC c = True"
| "mem Dot c = (c \<noteq> nl)"
| "mem Space c = is_space c"
| "mem Word c = is_word c"
| "mem (Or a b) c = (mem a c \<or> mem b c)"
| "mem (Neg a) c = (\<not> mem a c)"

datatype item = C cset | Rep cset nat bool | Opt cset | Open | Close
  | Ahead "item list list" | Alt "item list list" | EolM | Eol | EndZ

definition lit :: "string \<Rightarrow> item list" where
  "lit s = map (\<lambda>c. C (Chr c)) s"

definition lit_i :: "string \<Rightarrow> item list" where
  "lit_i s = map (\<lambda>c. C (ChrI c)) s"

fun first_some :: "('a \<Rightarrow> 'b option) \<Rightarrow> 'a list \<Rightarrow> 'b option" where
  "first_some f [] = None"
| "first_some f (x # xs) = (case f x of Some y \<Rightarrow> Some y | None \<Rightarrow> first_some f xs)"

lemma first_some_cong [fundef_cong]:
  "xs = ys \<Longrightarrow> (\<And>x. x \<in> set ys \<Longrightarrow> f x = g x) \<Longrightarrow> first_some f xs = first_some g ys"
  by (induction ys arbitrary: xs) (auto split: option.splits)

lemma size_alt_less: "a \<in> set alts \<Longrightarrow> size_list size a < Suc (size_list (size_list size) alts)"
  by (induction alts) auto

text \<open>
  \<open>run p s i g\<close> matches the pattern \<open>p\<close> at the head of \<open>s\<close>, trying the choices in the
  matcher's order (a greedy repetition from the longest, a lazy one from the shortest, an
  alternation from the left) and keeping the first that lets the rest of the pattern
  match. \<open>i\<close> counts the characters consumed since the start of the match and \<open>g\<close> is the
  span of group 1; the result is the end of the match and that span.
\<close>

function run :: "item list \<Rightarrow> string \<Rightarrow> nat \<Rightarrow> nat \<times> nat \<Rightarrow> (nat \<times> nat \<times> nat) option" where
  "run [] s i g = Some (i, g)"
| "run (C cs # r) s i g =
     (case s of [] \<Rightarrow> None | x # xs \<Rightarrow> if mem cs x then run r xs (Suc i) g else None)"
| "run (Opt cs # r) s i g =
     (case s of [] \<Rightarrow> run r s i g
      | x # xs \<Rightarrow> if mem cs x
          then (case run r xs (Suc i) g of Some m \<Rightarrow> Some m | None \<Rightarrow> run r s i g)
          else run r s i g)"
| "run (Rep cs mn greedy # r) s i g =
     (let n = length (takeWhile (mem cs) s);
          ks = (if greedy then rev [mn..<Suc n] else [mn..<Suc n])
      in first_some (\<lambda>k. run r (drop k s) (i + k) g) ks)"
| "run (Open # r) s i g = run r s i (i, snd g)"
| "run (Close # r) s i g = run r s i (fst g, i)"
| "run (Ahead alts # r) s i g =
     (if first_some (\<lambda>a. run a s i g) alts \<noteq> None then run r s i g else None)"
| "run (Alt alts # r) s i g = first_some (\<lambda>a. run (a @ r) s i g) alts"
| "run (EolM # r) s i g = (if s = [] \<or> hd s = nl then run r s i g else None)"
| "run (Eol # r) s i g = (if s = [] \<or> s = [nl] then run r s i g else None)"
| "run (EndZ # r) s i g = (if s = [] then run r s i g else None)"
  by pat_completeness auto
termination
  by (relation "measure (\<lambda>(p, s, i, g). size_list size p)")
     (auto simp: size_list_append dest: size_alt_less)

definition match_at :: "item list \<Rightarrow> string \<Rightarrow> (nat \<times> nat \<times> nat) option" where
  "match_at p s = run p s 0 (0, 0)"

definition span :: "string \<Rightarrow> nat \<Rightarrow> nat \<Rightarrow> string" where
  "span s a b = take (b - a) (drop a s)"

text \<open>
  \<^verbatim>\<open>re.search\<close>: the match at the leftmost position that has one (the end of the string
  included), as the whole match (group 0) and group 1.
\<close>

fun re_search :: "item list \<Rightarrow> string \<Rightarrow> (string \<times> string) option" where
  "re_search p [] =
     (case match_at p [] of None \<Rightarrow> None | Some (e, a, b) \<Rightarrow> Some (span [] 0 e, span [] a b))"
| "re_search p (x # xs) =
     (case match_at p (x # xs) of None \<Rightarrow> re_search p xs
      | Some (e, a, b) \<Rightarrow> Some (span (x # xs) 0 e, span (x # xs) a b))"

text \<open>
  \<^verbatim>\<open>re.findall\<close> for a pattern with one group: group 1 of every match, from the left,
  the next search starting where the last match ended. (No pattern of the tool matches
  the empty string; after an empty match the search moves on by one character.)
\<close>

function re_findall :: "item list \<Rightarrow> string \<Rightarrow> string list" where
  "re_findall p s =
     (case match_at p s of
        None \<Rightarrow> (case s of [] \<Rightarrow> [] | x # xs \<Rightarrow> re_findall p xs)
      | Some (e, a, b) \<Rightarrow>
          span s a b # (case s of [] \<Rightarrow> [] | x # xs \<Rightarrow> re_findall p (drop (max 1 e) s)))"
  by pat_completeness auto
termination
  by (relation "measure (\<lambda>(p, s). length s)") auto

text \<open>
  \<^verbatim>\<open>re.sub(p, '', s)\<close>: every match is cut out, from the left.
\<close>

function re_sub_empty :: "item list \<Rightarrow> string \<Rightarrow> string" where
  "re_sub_empty p s =
     (case s of [] \<Rightarrow> []
      | x # xs \<Rightarrow>
         (case match_at p s of
            None \<Rightarrow> x # re_sub_empty p xs
          | Some (e, a, b) \<Rightarrow> if e = 0 then x # re_sub_empty p xs else re_sub_empty p (drop e s)))"
  by pat_completeness auto
termination
  by (relation "measure (\<lambda>(p, s). length s)") auto

text \<open>Both functions are unfolded by hand where a proof needs it.\<close>

declare re_findall.simps [simp del] re_sub_empty.simps [simp del]


section \<open>The analyzer's tables and patterns\<close>

text \<open>\<^verbatim>\<open>RTConfigAnalyzer.unsupported_gcc_keywords\<close>, in the order of the source.\<close>

definition unsupported_gcc_keywords :: "string list" where
  "unsupported_gcc_keywords =
    [''--apcs=interwork'',
     ''-D__MICROLIB'',
     ''--pd '' @ [dq] @ ''__MICROLIB SETA 1'' @ [dq],
     ''--library_type=microlib'',
     ''--cpu Cortex-M4.fp'',
     ''--diag_suppress Pa050'',
     ''-Dewarm'',
     ''--no_cse'',
     ''--no_unroll'',
     ''--no_inline'',
     ''--no_code_motion'',
     ''--no_tbaa'',
     ''--no_clustering'',
     ''--no_scheduling'',
     ''--target=arm-arm-none-eabi'',
     ''--list rt-thread.map'',
     ''--strict'']"

definition quote :: cset where
  "quote = Or (Chr sq) (Chr dq)"

text \<open>
  The patterns of \<^verbatim>\<open>_analyze_compiler_flags_fixed\<close>, searched with
  \<^verbatim>\<open>re.IGNORECASE | re.MULTILINE | re.DOTALL\<close>:
  \<^verbatim>\<open>NAME\s*[+:]?=\s*(.+?)(?=\n\s*\w+\s*[=:]|\n\s*$|#)\<close>.
\<close>

definition flag_pattern :: "string \<Rightarrow> item list" where
  "flag_pattern name =
     lit_i name @
     [Rep Space 0 True, Opt (Or (Chr (CHR ''+'')) (Chr (CHR '':''))), C (Chr (CHR ''='')),
      Rep Space 0 True, Open, Rep AnyC 1 False, Close,
      Ahead [[C (Chr nl), Rep Space 0 True, Rep Word 1 True, Rep Space 0 True,
                C (Or (Chr (CHR ''='')) (Chr (CHR '':'')))],
             [C (Chr nl), Rep Space 0 True, EolM],
             [C (Chr (CHR ''#''))]]]"

text \<open>\<^verbatim>\<open>#.*$\<close>, without flags.\<close>

definition comment_pattern :: "item list" where
  "comment_pattern = [C (Chr (CHR ''#'')), Rep Dot 0 True, Eol]"

text \<open>\<^verbatim>\<open>-D([\w_][\w\d_]*)\<close> and \<^verbatim>\<open>-I([^\s'"]+)\<close>, without flags.\<close>

definition define_pattern :: "item list" where
  "define_pattern = lit ''-D'' @ [Open, C Word, Rep Word 0 True, Close]"

definition include_pattern :: "item list" where
  "include_pattern = lit ''-I'' @ [Open, Rep (Neg (Or Space quote)) 1 True, Close]"

text \<open>
  The patterns of \<^verbatim>\<open>_extract_with_regex\<close>, searched with \<^verbatim>\<open>re.IGNORECASE\<close>:
  \<^verbatim>\<open>NAME\s*=\s*['"]([^'"]+)['"]\<close> for five names and
  \<^verbatim>\<open>EXEC_PATH\s*=\s*(.+?)(?:\n|$)\<close>.
\<close>

definition quoted_pattern :: "string \<Rightarrow> item list" where
  "quoted_pattern name =
     lit_i name @
     [Rep Space 0 True, C (Chr (CHR ''='')), Rep Space 0 True, C quote,
      Open, Rep (Neg quote) 1 True, Close, C quote]"

definition exec_path_pattern :: "item list" where
  "exec_path_pattern =
     lit_i ''EXEC_PATH'' @
     [Rep Space 0 True, C (Chr (CHR ''='')), Rep Space 0 True,
      Open, Rep Dot 1 False, Close, Alt [[C (Chr nl)], [Eol]]]"

text \<open>
  The patterns of \<^verbatim>\<open>_extract_dist_handle\<close>, searched with \<^verbatim>\<open>re.DOTALL\<close>:
  \<^verbatim>\<open>def\s+dist_handle\s*\([^)]*\)\s*:(.*?)(?=\n\s*def\s|\n\s*$|\Z)\<close> and
  \<^verbatim>\<open>def\s+dist_handle\s*\(.*?\).*?(?:\n{2,}|\Z)\<close>.
\<close>

definition dist_handle_pattern :: "item list" where
  "dist_handle_pattern =
     lit ''def'' @ [Rep Space 1 True] @ lit ''dist_handle'' @
     [Rep Space 0 True, C (Chr (CHR ''('')), Rep (Neg (Chr (CHR '')''))) 0 True,
      C (Chr (CHR '')'')), Rep Space 0 True, C (Chr (CHR '':'')),
      Open, Rep AnyC 0 False, Close,
      Ahead [[C (Chr nl), Rep Space 0 True] @ lit ''def'' @ [C Space],
             [C (Chr nl), Rep Space 0 True, Eol],
             [EndZ]]]"

definition dist_handle_pattern2 :: "item list" where
  "dist_handle_pattern2 =
     lit ''def'' @ [Rep Space 1 True] @ lit ''dist_handle'' @
     [Rep Space 0 True, C (Chr (CHR ''('')), Rep AnyC 0 False, C (Chr (CHR '')'')),
      Rep AnyC 0 False, Alt [[Rep (Chr nl) 2 True], [EndZ]]]"

text \<open>
  The patterns of \<^verbatim>\<open>_extract_link_script\<close>, without flags:
  \<^verbatim>\<open>-T\s+([\w/\.\-_]+\.lds?)\<close>, \<^verbatim>\<open>link_script\s*=\s*['"]([^'"]+)['"]\<close> and the same
  for \<^verbatim>\<open>LINK_SCRIPT\<close>.
\<close>

definition link_flag_pattern :: "item list" where
  "link_flag_pattern =
     lit ''-T'' @
     [Rep Space 1 True, Open,
      Rep (Or Word (Or (Chr (CHR ''/'')) (Or (Chr (CHR ''.'')) (Chr (CHR ''-''))))) 1 True]
     @ lit ''.ld'' @ [Opt (Chr (CHR ''s'')), Close]"

definition link_var_pattern :: "string \<Rightarrow> item list" where
  "link_var_pattern name =
     lit name @
     [Rep Space 0 True, C (Chr (CHR ''='')), Rep Space 0 True, C quote,
      Open, Rep (Neg quote) 1 True, Close, C quote]"

text \<open>
  The patterns of \<^verbatim>\<open>_generate_safe_cflags_fixed\<close>, without flags:
  \<^verbatim>\<open>(-fstack-usage)\<close>, \<^verbatim>\<open>(-fdump-rtl-\w+)\<close> and \<^verbatim>\<open>(-std=\w+)\<close>.
\<close>

definition useful_patterns :: "item list list" where
  "useful_patterns =
     [[Open] @ lit ''-fstack-usage'' @ [Close],
      [Open] @ lit ''-fdump-rtl-'' @ [Rep Word 1 True, Close],
      [Open] @ lit ''-std='' @ [Rep Word 1 True, Close]]"

section \<open>Python values and the syntax tree\<close>

text \<open>
  The values a configuration file's literals evaluate to. A set and a dictionary carry
  their elements in the order of the source; nothing in the tool looks inside one.
  Floating-point, complex and bytes literals are outside the model.
\<close>

datatype pyval = PNone | PBool bool | PInt int | PStr string
  | PTuple "pyval list" | PList "pyval list" | PSet "pyval list" | PDict "(pyval \<times> pyval) list"

datatype pyexc = SyntaxError | ValueError | TypeError

text \<open>Lists, sets and dictionaries cannot be hashed, nor a tuple that holds one.\<close>

fun hashable :: "pyval \<Rightarrow> bool" where
  "hashable (PTuple vs) = (\<forall>v \<in> set vs. hashable v)"
| "hashable (PList vs) = False"
| "hashable (PSet vs) = False"
| "hashable (PDict kvs) = False"
| "hashable v = True"

text \<open>
  The expressions of \<^verbatim>\<open>ast\<close>, as far as \<^verbatim>\<open>ast.literal_eval\<close> tells them apart:
  a constant, a tuple, list or set display, the call \<^verbatim>\<open>set()\<close>, a dictionary display
  (its keys and its values, as \<^verbatim>\<open>ast.Dict\<close> holds them), a unary operation, and every
  other expression (a name, a call, an attribute, a binary operation, ...).
\<close>

datatype unaryop = UAdd | USub | Invert | NotOp

datatype expr = Constant pyval | ETuple "expr list" | EList "expr list" | ESet "expr list"
  | SetCall | EDict "expr list" "expr list" | UnaryOp unaryop expr | OtherExpr

fun sequence :: "('e + 'a) list \<Rightarrow> 'e + 'a list" where
  "sequence [] = Inr []"
| "sequence (Inl e # rs) = Inl e"
| "sequence (Inr v # rs) = (case sequence rs of Inl e \<Rightarrow> Inl e | Inr vs \<Rightarrow> Inr (v # vs))"

text \<open>\<^verbatim>\<open>set(map(_convert, elts))\<close>: each element is converted, then hashed, before the next.\<close>

fun build_set :: "(pyexc + pyval) list \<Rightarrow> pyexc + pyval list" where
  "build_set [] = Inr []"
| "build_set (Inl e # rs) = Inl e"
| "build_set (Inr v # rs) =
     (if hashable v then (case build_set rs of Inl e \<Rightarrow> Inl e | Inr vs \<Rightarrow> Inr (v # vs))
      else Inl TypeError)"

text \<open>\<^verbatim>\<open>dict(zip(map(_convert, keys), map(_convert, values)))\<close>: a key and its value are
  converted, then the key is hashed, before the next pair.\<close>

fun build_dict :: "((pyexc + pyval) \<times> (pyexc + pyval)) list \<Rightarrow> pyexc + (pyval \<times> pyval) list" where
  "build_dict [] = Inr []"
| "build_dict ((Inl e, rv) # rs) = Inl e"
| "build_dict ((Inr k, Inl e) # rs) = Inl e"
| "build_dict ((Inr k, Inr v) # rs) =
     (if hashable k then (case build_dict rs of Inl e \<Rightarrow> Inl e | Inr kvs \<Rightarrow> Inr ((k, v) # kvs))
      else Inl TypeError)"

text \<open>
  \<^verbatim>\<open>ast.literal_eval\<close> on an expression node: \<^verbatim>\<open>ValueError\<close> (malformed node) for what
  is not a literal, \<^verbatim>\<open>TypeError\<close> (unhashable type) for a set element or a dictionary
  key that cannot be hashed.
\<close>

fun literal_eval :: "expr \<Rightarrow> pyexc + pyval" where
  "literal_eval (Constant v) = Inr v"
| "literal_eval (ETuple es) =
     (case sequence (map literal_eval es) of Inl e \<Rightarrow> Inl e | Inr vs \<Rightarrow> Inr (PTuple vs))"
| "literal_eval (EList es) =
     (case sequence (map literal_eval es) of Inl e \<Rightarrow> Inl e | Inr vs \<Rightarrow> Inr (PList vs))"
| "literal_eval (ESet es) =
     (case build_set (map literal_eval es) of Inl e \<Rightarrow> Inl e | Inr vs \<Rightarrow> Inr (PSet vs))"
| "literal_eval SetCall = Inr (PSet [])"
| "literal_eval (EDict ks vs) =
     (if length ks \<noteq> length vs then Inl ValueError
      else (case build_dict (zip (map literal_eval ks) (map literal_eval vs)) of
              Inl e \<Rightarrow> Inl e | Inr kvs \<Rightarrow> Inr (PDict kvs)))"
| "literal_eval (UnaryOp UAdd (Constant (PInt n))) = Inr (PInt n)"
| "literal_eval (UnaryOp USub (Constant (PInt n))) = Inr (PInt (- n))"
| "literal_eval (UnaryOp op e) = Inl ValueError"
| "literal_eval OtherExpr = Inl ValueError"

text \<open>
  The syntax tree, as far as \<^verbatim>\<open>_extract_from_ast\<close> tells its nodes apart: an
  \<^verbatim>\<open>ast.Assign\<close> with its targets and its value, and any other node with its child nodes
  (a module, a compound statement, an exception handler, ...). A target is an
  \<^verbatim>\<open>ast.Name\<close> or something else (an attribute, a subscript, a tuple).
\<close>

datatype target = Name string | OtherTarget

datatype node = Assign "target list" expr | Other "node list"

fun children :: "node \<Rightarrow> node list" where
  "children (Assign targets v) = []"
| "children (Other ns) = ns"

text \<open>\<^verbatim>\<open>ast.walk\<close>: breadth first, from a queue of the nodes still to visit.\<close>

function walk :: "node list \<Rightarrow> node list" where
  "walk [] = []"
| "walk (n # todo) = n # walk (todo @ children n)"
  by pat_completeness auto
termination
proof (relation "measure (size_list size)")
  show "wf (measure (size_list (size :: node \<Rightarrow> nat)))" by simp
next
  fix n :: node and todo :: "node list"
  show "(todo @ children n, n # todo) \<in> measure (size_list size)"
    by (cases n) (simp_all add: size_list_append)
qed

section \<open>What the tool takes from Python and the file system\<close>

text \<open>
  The library functions that the model does not define, and the answers of the
  operating system: \<^verbatim>\<open>ast.parse\<close> (\<open>None\<close> when it raises \<^verbatim>\<open>SyntaxError\<close>),
  \<^verbatim>\<open>ast.unparse\<close>, the test whether a path below the directory of the configuration
  file exists, \<^verbatim>\<open>str\<close> of a tuple, list, set or dictionary, \<^verbatim>\<open>Path(p).name\<close>, and the
  two renderings of \<^verbatim>\<open>datetime.now()\<close>. What else \<^verbatim>\<open>ast.parse\<close> can raise (on a text
  with a null character, on nesting that is too deep) is not modelled.
\<close>

record host =
  ast_parse :: "string \<Rightarrow> node option"
  ast_unparse :: "expr \<Rightarrow> string"
  path_exists :: "string \<Rightarrow> bool"
  str_container :: "pyval \<Rightarrow> string"
  path_name :: "string \<Rightarrow> string"
  now_text :: string
  now_stamp :: string

section \<open>RTConfigAnalyzer\<close>

record unsupported =
  flag :: string
  flag_value :: string
  unsupported_keyword :: string

text \<open>
  The dictionary that \<^verbatim>\<open>analyze\<close> returns. An entry is \<open>None\<close> while the dictionary
  has no such key, and \<open>Some v\<close> once the key is there (also when \<open>v\<close> is Python's
  \<^verbatim>\<open>None\<close>): \<^verbatim>\<open>d.get(key, default)\<close> yields the default only for a missing key. The
  entry \<^verbatim>\<open>gcc_config\<close>, which nothing reads or writes, is left out.
\<close>

record analysis =
  arch :: "pyval option"
  cpu :: "pyval option"
  cross_tool :: "pyval option"
  platform :: "pyval option"
  exec_path :: "pyval option"
  build :: "pyval option"
  unsupported_configs :: "unsupported list option"
  original_variables :: "string \<rightharpoonup> pyval"
  dist_handle_found :: "bool option"
  linker_script :: "pyval option"
  a_defines :: "string set option"
  a_includes :: "string set option"
  original_file :: "string option"

definition dict_get :: "'a option \<Rightarrow> 'a \<Rightarrow> 'a" where
  "dict_get entry dflt = (case entry of None \<Rightarrow> dflt | Some v \<Rightarrow> v)"

text \<open>The analyzer object: the text of the file and what the extraction has found.\<close>

record analyzer =
  content :: string
  parsed_successfully :: bool
  dist_handle_code :: string
  link_script_path :: "string option"
  all_defines :: "string set"
  all_includes :: "string set"

definition init_analyzer :: "string \<Rightarrow> analyzer" where
  "init_analyzer text =
     \<lparr>content = text, parsed_successfully = False, dist_handle_code = [],
      link_script_path = None, all_defines = {}, all_includes = {}\<rparr>"

definition initial_result :: analysis where
  "initial_result =
     \<lparr>arch = Some PNone, cpu = Some PNone, cross_tool = Some PNone, platform = Some PNone,
      exec_path = Some PNone, build = Some (PStr ''debug''), unsupported_configs = Some [],
      original_variables = Map.empty, dist_handle_found = Some False,
      linker_script = Some PNone, a_defines = Some {}, a_includes = Some {},
      original_file = None\<rparr>"

subsection \<open>\<^verbatim>\<open>_extract_from_ast\<close>\<close>

definition set_key_variable :: "string \<Rightarrow> pyval \<Rightarrow> analysis \<Rightarrow> analysis" where
  "set_key_variable var_name var_value result =
     (if var_name \<in> set [''ARCH'', ''arch''] then result\<lparr>arch := Some var_value\<rparr>
      else if var_name \<in> set [''CPU'', ''cpu''] then result\<lparr>cpu := Some var_value\<rparr>
      else if var_name \<in> set [''CROSS_TOOL'', ''CROSS_TOOL''] then result\<lparr>cross_tool := Some var_value\<rparr>
      else if var_name \<in> set [''PLATFORM'', ''platform''] then result\<lparr>platform := Some var_value\<rparr>
      else if var_name \<in> set [''EXEC_PATH'', ''exec_path''] then result\<lparr>exec_path := Some var_value\<rparr>
      else if var_name \<in> set [''BUILD'', ''build''] then result\<lparr>build := Some var_value\<rparr>
      else result)"

definition record_variable :: "string \<Rightarrow> pyval \<Rightarrow> analysis \<Rightarrow> analysis" where
  "record_variable var_name v result =
     result\<lparr>original_variables := (original_variables result)(var_name \<mapsto> v)\<rparr>"

text \<open>
  One target of one assignment. \<^verbatim>\<open>ValueError\<close> and \<^verbatim>\<open>SyntaxError\<close> of
  \<^verbatim>\<open>literal_eval\<close> are caught and the unparsed expression is recorded; any other
  exception leaves the function.
\<close>

definition assign_target :: "host \<Rightarrow> expr \<Rightarrow> target \<Rightarrow> analysis \<Rightarrow> pyexc + analysis" where
  "assign_target h node_value tgt result =
     (case tgt of
        OtherTarget \<Rightarrow> Inr result
      | Name var_name \<Rightarrow>
          (case literal_eval node_value of
             Inr var_value \<Rightarrow>
               Inr (set_key_variable var_name var_value (record_variable var_name var_value result))
           | Inl e \<Rightarrow>
               if e = ValueError \<or> e = SyntaxError
               then Inr (record_variable var_name (PStr (ast_unparse h node_value)) result)
               else Inl e))"

fun for_each :: "('a \<Rightarrow> 's \<Rightarrow> pyexc + 's) \<Rightarrow> 'a list \<Rightarrow> 's \<Rightarrow> pyexc + 's" where
  "for_each f [] st = Inr st"
| "for_each f (x # xs) st = (case f x st of Inl e \<Rightarrow> Inl e | Inr st' \<Rightarrow> for_each f xs st')"

definition visit :: "host \<Rightarrow> node \<Rightarrow> analysis \<Rightarrow> pyexc + analysis" where
  "visit h n result =
     (case n of
        Assign targets node_value \<Rightarrow> for_each (assign_target h node_value) targets result
      | Other ns \<Rightarrow> Inr result)"

definition extract_from_ast :: "host \<Rightarrow> node \<Rightarrow> analysis \<Rightarrow> pyexc + analysis" where
  "extract_from_ast h tree result = for_each (visit h) (walk [tree]) result"

subsection \<open>\<^verbatim>\<open>_extract_with_regex\<close>\<close>

definition regex_patterns :: "(string \<times> item list) list" where
  "regex_patterns =
     [(''ARCH'', quoted_pattern ''ARCH''),
      (''CPU'', quoted_pattern ''CPU''),
      (''CROSS_TOOL'', quoted_pattern ''CROSS_TOOL''),
      (''PLATFORM'', quoted_pattern ''PLATFORM''),
      (''EXEC_PATH'', exec_path_pattern),
      (''BUILD'', quoted_pattern ''BUILD'')]"

definition set_regex_variable :: "string \<Rightarrow> pyval \<Rightarrow> analysis \<Rightarrow> analysis" where
  "set_regex_variable var_name v result =
     (if var_name = ''ARCH'' then result\<lparr>arch := Some v\<rparr>
      else if var_name = ''CPU'' then result\<lparr>cpu := Some v\<rparr>
      else if var_name = ''CROSS_TOOL'' then result\<lparr>cross_tool := Some v\<rparr>
      else if var_name = ''PLATFORM'' then result\<lparr>platform := Some v\<rparr>
      else if var_name = ''EXEC_PATH'' then result\<lparr>exec_path := Some v\<rparr>
      else if var_name = ''BUILD'' then result\<lparr>build := Some v\<rparr>
      else result)"

definition regex_step :: "string \<Rightarrow> string \<times> item list \<Rightarrow> analysis \<Rightarrow> analysis" where
  "regex_step text entry result =
     (case re_search (snd entry) text of
        None \<Rightarrow> result
      | Some (g0, g1) \<Rightarrow>
          (let v = PStr (py_strip_chars [sq, dq] g1)
           in set_regex_variable (fst entry) v (record_variable (fst entry) v result)))"

definition extract_with_regex :: "string \<Rightarrow> analysis \<Rightarrow> analysis" where
  "extract_with_regex text result = fold (regex_step text) regex_patterns result"

subsection \<open>\<^verbatim>\<open>_extract_dist_handle\<close> and \<^verbatim>\<open>_extract_link_script\<close>\<close>

definition extract_dist_handle :: "analyzer \<Rightarrow> analyzer" where
  "extract_dist_handle self =
     (case re_search dist_handle_pattern (content self) of
        Some (g0, g1) \<Rightarrow>
          (let func_start = py_find (content self) g0;
               func_end = func_start + int (length g0);
               def_line_start = py_rfind_char (content self) nl func_start + 1
           in self\<lparr>dist_handle_code := py_slice (content self) def_line_start func_end\<rparr>)
      | None \<Rightarrow>
          (case re_search dist_handle_pattern2 (content self) of
             Some (g0, g1) \<Rightarrow> self\<lparr>dist_handle_code := g0\<rparr>
           | None \<Rightarrow> self))"

definition common_paths :: "string list" where
  "common_paths =
     [''board/linker_scripts/link.lds'', ''linker_scripts/link.lds'', ''scripts/link.lds'',
      ''link.lds'', ''linker.ld'']"

definition extract_link_script :: "host \<Rightarrow> analyzer \<Rightarrow> analyzer" where
  "extract_link_script h self =
     (let found =
            first_some (\<lambda>p. re_search p (content self))
              [link_flag_pattern, link_var_pattern ''link_script'', link_var_pattern ''LINK_SCRIPT''];
          self1 = (case found of
                     None \<Rightarrow> self
                   | Some (g0, g1) \<Rightarrow>
                       self\<lparr>link_script_path :=
                              Some (if g1 \<noteq> [] then py_replace [bsl] ''/'' g1 else g1)\<rparr>)
      in if link_script_path self1 = None \<or> link_script_path self1 = Some []
         then (case find (path_exists h) common_paths of
                 None \<Rightarrow> self1
               | Some path \<Rightarrow> self1\<lparr>link_script_path := Some path\<rparr>)
         else self1)"

subsection \<open>\<^verbatim>\<open>_analyze_compiler_flags_fixed\<close>\<close>

text \<open>
  The classification of one flag value, which the source writes as a loop that stops at
  the first hit: the first keyword of the table that occurs in the value.
\<close>

definition first_unsupported_keyword :: "string list \<Rightarrow> string \<Rightarrow> string option" where
  "first_unsupported_keyword keywords v = find (\<lambda>keyword. py_in keyword v) keywords"

definition clean_flag_value :: "string \<Rightarrow> string" where
  "clean_flag_value m =
     py_strip_chars [dq, sq, CHR ''+'', CHR '' '', tab, nl] (re_sub_empty comment_pattern (py_strip m))"

definition check_match :: "string \<Rightarrow> string \<Rightarrow> unsupported list" where
  "check_match flag_name m =
     (let v = clean_flag_value m
      in if v \<noteq> []
         then (case first_unsupported_keyword unsupported_gcc_keywords v of
                 Some keyword \<Rightarrow> [\<lparr>flag = flag_name, flag_value = v, unsupported_keyword = keyword\<rparr>]
               | None \<Rightarrow> [])
         else [])"

definition flag_names :: "string list" where
  "flag_names = [''CFLAGS'', ''AFLAGS'', ''LFLAGS'']"

definition flag_matches :: "string \<Rightarrow> string \<Rightarrow> string list" where
  "flag_matches text flag_name = re_findall (flag_pattern flag_name) text"

definition check_flag :: "string \<Rightarrow> string \<Rightarrow> unsupported list" where
  "check_flag text flag_name = concat (map (check_match flag_name) (flag_matches text flag_name))"

definition analyze_compiler_flags_fixed :: "analyzer \<Rightarrow> analysis \<Rightarrow> analysis" where
  "analyze_compiler_flags_fixed self result =
     result\<lparr>unsupported_configs := Some (concat (map (check_flag (content self)) flag_names))\<rparr>"

subsection \<open>\<^verbatim>\<open>_extract_defines_and_includes_fixed\<close>\<close>

definition keep_define :: "string \<Rightarrow> bool" where
  "keep_define m = (m \<noteq> [] \<and> m \<noteq> ''gcc'' \<and> (''-D'' @ m) \<notin> set unsupported_gcc_keywords)"

definition keep_include :: "string \<Rightarrow> bool" where
  "keep_include m = (m \<noteq> [] \<and> py_strip m \<noteq> [] \<and> \<not> prefix ''+'' m)"

definition extract_defines_and_includes_fixed :: "analyzer \<Rightarrow> analyzer" where
  "extract_defines_and_includes_fixed self =
     self\<lparr>all_defines := all_defines self \<union> set (filter keep_define (re_findall define_pattern (content self))),
          all_includes := all_includes self \<union> set (filter keep_include (re_findall include_pattern (content self)))\<rparr>"

subsection \<open>\<^verbatim>\<open>analyze\<close>\<close>

text \<open>
  The steps of \<^verbatim>\<open>analyze\<close> after the variables are extracted: the flags, the defines
  and includes, and the last four entries of the result.
\<close>

definition finish_analysis :: "analyzer \<Rightarrow> analysis \<Rightarrow> analyzer \<times> analysis" where
  "finish_analysis self result =
     (let result1 = analyze_compiler_flags_fixed self result;
          self1 = extract_defines_and_includes_fixed self
      in (self1,
          result1\<lparr>dist_handle_found := Some (dist_handle_code self1 \<noteq> []),
                  linker_script := Some (case link_script_path self1 of None \<Rightarrow> PNone | Some p \<Rightarrow> PStr p),
                  a_defines := Some (all_defines self1),
                  a_includes := Some (all_includes self1)\<rparr>))"

text \<open>
  \<^verbatim>\<open>analyze\<close> returns the analyzer as it has become and the result, or the exception
  that leaves it. Only the \<^verbatim>\<open>SyntaxError\<close> of \<^verbatim>\<open>ast.parse\<close> is caught there.
\<close>

definition analyze :: "host \<Rightarrow> analyzer \<Rightarrow> pyexc + analyzer \<times> analysis" where
  "analyze h self =
     (let self1 = extract_dist_handle self;
          self2 = extract_link_script h self1
      in case ast_parse h (content self2) of
           Some tree \<Rightarrow>
             (case extract_from_ast h tree initial_result of
                Inl e \<Rightarrow> Inl e
              | Inr result \<Rightarrow> Inr (finish_analysis (self2\<lparr>parsed_successfully := True\<rparr>) result))
         | None \<Rightarrow> Inr (finish_analysis self2 (extract_with_regex (content self2) initial_result)))"

section \<open>RTConfigGenerator\<close>

text \<open>\<^verbatim>\<open>str(v)\<close>, as an f-string renders a value.\<close>

fun dec_nat :: "nat \<Rightarrow> string" where
  "dec_nat n = (if n < 10 then [char_of (48 + n)] else dec_nat (n div 10) @ [char_of (48 + n mod 10)])"

definition py_str :: "host \<Rightarrow> pyval \<Rightarrow> string" where
  "py_str h v =
     (case v of
        PNone \<Rightarrow> ''None''
      | PBool b \<Rightarrow> (if b then ''True'' else ''False'')
      | PInt i \<Rightarrow> (if i < 0 then CHR ''-'' # dec_nat (nat (- i)) else dec_nat (nat i))
      | PStr s \<Rightarrow> s
      | _ \<Rightarrow> str_container h v)"

definition rule_line :: string where
  "rule_line = ''# ====================================================''"

subsection \<open>\<^verbatim>\<open>_add_header\<close> and \<^verbatim>\<open>_add_basic_config\<close>\<close>

definition add_header :: "host \<Rightarrow> analysis \<Rightarrow> string list" where
  "add_header h a =
    [''#!/usr/bin/env python3'',
      [dq, dq, dq],
      ''RT-Thread BSP'' @ utf8 [233, 133, 141, 231, 189, 174, 230, 150, 135, 228, 187, 182],
      utf8
       [228, 187, 142, 229, 142, 159, 229, 167, 139, 233, 133, 141, 231, 189, 174, 232, 135, 170, 229, 138, 168, 232, 191, 129, 231, 167, 187, 231, 148, 159, 230, 136, 144, 239, 188, 140, 233, 128, 130, 233, 133, 141]
       @ ''Linux'' @ utf8 [231, 142, 175, 229, 162, 131],
      utf8 [229, 142, 159, 229, 167, 139, 230, 150, 135, 228, 187, 182] @ '': '' @ path_name h
       (dict_get (original_file a) []),
      utf8 [231, 148, 159, 230, 136, 144, 230, 151, 182, 233, 151, 180] @ '': '' @ now_text h,
      [dq, dq, dq],
      []]"

definition add_basic_config :: "host \<Rightarrow> analysis \<Rightarrow> string list" where
  "add_basic_config h a =
    [rule_line,
      ''# '' @ utf8 [229, 159, 186, 230, 156, 172, 233, 133, 141, 231, 189, 174],
      rule_line,
      ''ARCH = '' @ [sq] @ py_str h (dict_get (arch a) (PStr ''arm'')) @ [sq],
      ''CPU = '' @ [sq] @ py_str h (dict_get (cpu a) (PStr ''cortex-m4'')) @ [sq],
      ''CROSS_TOOL = 'gcc'' @ [sq],
      [],
      ''# BSP'' @ utf8 [229, 186, 147, 231, 177, 187, 229, 158, 139],
      ''BSP_LIBRARY_TYPE = None'',
      [],
      ''# '' @ utf8
       [231, 142, 175, 229, 162, 131, 229, 143, 152, 233, 135, 143, 232, 166, 134, 231, 155, 150],
      ''if os.getenv('RTT_CC'):'',
      ''    CROSS_TOOL = os.getenv('RTT_CC')'',
      ''if os.getenv('RTT_ROOT'):'',
      ''    RTT_ROOT = os.getenv('RTT_ROOT')'',
      [],
      ''# '' @ utf8 [229, 183, 165, 229, 133, 183, 233, 147, 190, 233, 128, 137, 230, 139, 169] @
       '' - Linux'' @ utf8 [228, 184, 139, 229, 143, 170, 230, 148, 175, 230, 140, 129] @
       ''GCC'',
      ''if CROSS_TOOL == 'gcc':'',
      ''    PLATFORM = 'gcc'' @ [sq],
      ''    EXEC_PATH = '/usr/bin'  # Linux'' @ utf8
       [233, 187, 152, 232, 174, 164, 232, 183, 175, 229, 190, 132],
      ''elif CROSS_TOOL == 'keil':'',
      ''    print('' @ [dq] @ utf8 [232, 173, 166, 229, 145, 138] @ '': Keil MDK'' @ utf8
       [229, 156, 168] @ ''Linux'' @ utf8
       [228, 184, 139, 228, 184, 141, 229, 143, 175, 231, 148, 168, 239, 188, 140, 232, 175, 183, 229, 136, 135, 230, 141, 162, 229, 136, 176]
       @ ''GCC'' @ [dq] @ '')'',
      ''    PLATFORM = 'armcc'' @ [sq],
      ''    EXEC_PATH = '/usr/bin'' @ [sq],
      ''elif CROSS_TOOL == 'iar':'',
      ''    print('' @ [dq] @ utf8 [232, 173, 166, 229, 145, 138] @ '': IAR'' @ utf8
       [229, 156, 168] @ ''Linux'' @ utf8
       [228, 184, 139, 228, 184, 141, 229, 143, 175, 231, 148, 168, 239, 188, 140, 232, 175, 183, 229, 136, 135, 230, 141, 162, 229, 136, 176]
       @ ''GCC'' @ [dq] @ '')'',
      ''    PLATFORM = 'iccarm'' @ [sq],
      ''    EXEC_PATH = '/usr/bin'' @ [sq],
      ''else:'',
      ''    print(f'' @ [dq] @ utf8
       [228, 184, 141, 230, 148, 175, 230, 140, 129, 231, 154, 132, 231, 188, 150, 232, 175, 145, 229, 153, 168]
       @ '': {CROSS_TOOL}'' @ [dq] @ '')'',
      ''    exit(1)'',
      [],
      ''if os.getenv('RTT_EXEC_PATH'):'',
      ''    EXEC_PATH = os.getenv('RTT_EXEC_PATH')'',
      [],
      ''BUILD = '' @ [sq] @ py_str h (dict_get (build a) (PStr ''debug'')) @ [sq],
      []]"

subsection \<open>\<^verbatim>\<open>_determine_fpu\<close> and \<^verbatim>\<open>_add_toolchain_config\<close>\<close>

definition fpu_map :: "(string \<times> string) list" where
  "fpu_map =
     [(''cortex-m4'', ''fpv4-sp-d16''), (''cortex-m7'', ''fpv5-d16''), (''cortex-m33'', ''fpv5-sp-d16'')]"

text \<open>\<^verbatim>\<open>fpu_map.get(cpu, '')\<close> hashes its key: \<^verbatim>\<open>TypeError\<close> for one that cannot be hashed.\<close>

definition determine_fpu :: "pyval \<Rightarrow> pyexc + string" where
  "determine_fpu c =
     (if \<not> hashable c then Inl TypeError
      else Inr (case c of
                  PStr s \<Rightarrow> (case map_of fpu_map s of Some f \<Rightarrow> f | None \<Rightarrow> [])
                | _ \<Rightarrow> []))"

definition toolchain_lines :: "string list" where
  "toolchain_lines =
    [rule_line,
      ''# GCC'' @ utf8 [229, 183, 165, 229, 133, 183, 233, 147, 190, 233, 133, 141, 231, 189, 174],
      rule_line,
      ''if PLATFORM == 'gcc':'',
      ''    # '' @ utf8
       [229, 183, 165, 229, 133, 183, 233, 147, 190, 229, 145, 189, 228, 187, 164],
      ''    PREFIX = 'arm-none-eabi-'' @ [sq],
      ''    CC = PREFIX + 'gcc'' @ [sq],
      ''    AS = PREFIX + 'gcc'' @ [sq],
      ''    AR = PREFIX + 'ar'' @ [sq],
      ''    CXX = PREFIX + 'g++'' @ [sq],
      ''    LINK = PREFIX + 'gcc'' @ [sq],
      ''    TARGET_EXT = 'elf'' @ [sq],
      ''    SIZE = PREFIX + 'size'' @ [sq],
      ''    OBJDUMP = PREFIX + 'objdump'' @ [sq],
      ''    OBJCPY = PREFIX + 'objcopy'' @ [sq],
      []]"

definition add_toolchain_config :: "analysis \<Rightarrow> pyexc + string list" where
  "add_toolchain_config a =
     (case determine_fpu (dict_get (cpu a) (PStr ''cortex-m4'')) of
        Inl e \<Rightarrow> Inl e
      | Inr fpu \<Rightarrow> Inr toolchain_lines)"

subsection \<open>\<^verbatim>\<open>_generate_safe_cflags_fixed\<close>\<close>

definition original_cflags :: "analysis \<Rightarrow> string" where
  "original_cflags a =
     (case find (\<lambda>config. flag config = ''CFLAGS'') (dict_get (unsupported_configs a) []) of
        Some config \<Rightarrow> flag_value config
      | None \<Rightarrow> [])"

definition filtered_flags :: "string \<Rightarrow> string" where
  "filtered_flags v = fold (\<lambda>keyword s. py_replace keyword [] s) unsupported_gcc_keywords v"

definition useful_flags :: "string \<Rightarrow> string" where
  "useful_flags v =
     concat (map (\<lambda>p. case re_search p v of Some (g0, g1) \<Rightarrow> '' '' @ g1 | None \<Rightarrow> []) useful_patterns)"

definition generate_safe_cflags_fixed :: "analysis \<Rightarrow> string" where
  "generate_safe_cflags_fixed a =
     '' -Dgcc''
     @ concat (map (\<lambda>d. '' -D'' @ d) (sorted_list_of_set (dict_get (a_defines a) {})))
     @ concat (map (\<lambda>i. '' -I'' @ i)
         (filter (\<lambda>i. i \<noteq> [] \<and> py_strip i \<noteq> []) (sorted_list_of_set (dict_get (a_includes a) {}))))
     @ (if original_cflags a \<noteq> [] then useful_flags (filtered_flags (original_cflags a)) else [])"

subsection \<open>\<^verbatim>\<open>_add_gcc_config\<close> and \<^verbatim>\<open>_add_other_compiler_stubs\<close>\<close>

definition add_other_compiler_stubs :: "string list" where
  "add_other_compiler_stubs =
    [''elif PLATFORM == 'armcc':'',
      ''    # ARMCC'' @ utf8 [233, 133, 141, 231, 189, 174] @ '' (Linux'' @ utf8
       [228, 184, 139, 228, 184, 141, 229, 143, 175, 231, 148, 168] @ '')'',
      ''    print('' @ [dq] @ utf8 [233, 148, 153, 232, 175, 175] @ '': ARMCC'' @ utf8
       [229, 156, 168] @ ''Linux'' @ utf8
       [228, 184, 139, 228, 184, 141, 229, 143, 175, 231, 148, 168, 239, 188, 140, 232, 175, 183, 228, 189, 191, 231, 148, 168]
       @ ''GCC'' @ [dq] @ '')'',
      ''    exit(1)'',
      [],
      ''elif PLATFORM == 'armclang':'',
      ''    # ARMClang'' @ utf8 [233, 133, 141, 231, 189, 174] @ '' (Linux'' @ utf8
       [228, 184, 139, 228, 184, 141, 229, 143, 175, 231, 148, 168] @ '')'',
      ''    print('' @ [dq] @ utf8 [233, 148, 153, 232, 175, 175] @ '': ARMClang'' @ utf8
       [229, 156, 168] @ ''Linux'' @ utf8
       [228, 184, 139, 228, 184, 141, 229, 143, 175, 231, 148, 168, 239, 188, 140, 232, 175, 183, 228, 189, 191, 231, 148, 168]
       @ ''GCC'' @ [dq] @ '')'',
      ''    exit(1)'',
      [],
      ''elif PLATFORM == 'iccarm':'',
      ''    # IAR'' @ utf8 [233, 133, 141, 231, 189, 174] @ '' (Linux'' @ utf8
       [228, 184, 139, 228, 184, 141, 229, 143, 175, 231, 148, 168] @ '')'',
      ''    print('' @ [dq] @ utf8 [233, 148, 153, 232, 175, 175] @ '': IAR'' @ utf8
       [229, 156, 168] @ ''Linux'' @ utf8
       [228, 184, 139, 228, 184, 141, 229, 143, 175, 231, 148, 168, 239, 188, 140, 232, 175, 183, 228, 189, 191, 231, 148, 168]
       @ ''GCC'' @ [dq] @ '')'',
      ''    exit(1)'',
      []]"

definition device_flags_of :: "host \<Rightarrow> analysis \<Rightarrow> string \<Rightarrow> string" where
  "device_flags_of h a fpu =
     '' -mcpu='' @ py_str h (dict_get (cpu a) (PStr ''cortex-m4'')) @ '' -mthumb''
     @ (if fpu \<noteq> [] then '' -mfpu='' @ fpu @ '' -mfloat-abi='' @ (if fpu \<noteq> [] then ''hard'' else ''soft'')
        else [])
     @ '' -ffunction-sections -fdata-sections''"

definition gcc_lines :: "host \<Rightarrow> analysis \<Rightarrow> string \<Rightarrow> string list" where
  "gcc_lines h a fpu =
     (let device_flags = device_flags_of h a fpu;
          cflags = generate_safe_cflags_fixed a;
          ld_script = py_str h (dict_get (linker_script a) (PStr ''board/linker_scripts/link.lds''))
      in
    [''    # '' @ utf8 [231, 188, 150, 232, 175, 145, 229, 143, 130, 230, 149, 176],
      ''    DEVICE = '' @ [sq] @ device_flags @ [sq],
      ''    CFLAGS = DEVICE + '' @ [sq] @ cflags @ [sq],
      ''    AFLAGS = ' -c' + DEVICE + ' -x assembler-with-cpp -Wa,-mimplicit-it=thumb '' @ [sq],
      ''    LFLAGS = DEVICE + ' -Wl,--gc-sections,-Map=rt-thread.map,-cref,-u,Reset_Handler -T ''
       @ ld_script @ [sq],
      ''    CPATH = '' @ [sq, sq],
      ''    LPATH = '' @ [sq, sq],
      [],
      ''    if BUILD == 'debug':'',
      ''        CFLAGS += ' -O0 -gdwarf-2 -g'' @ [sq],
      ''        AFLAGS += ' -gdwarf-2'' @ [sq],
      ''    else:'',
      ''        CFLAGS += ' -O2'' @ [sq],
      [],
      ''    CXXFLAGS = CFLAGS'',
      [],
      ''    POST_ACTION = OBJCPY + ' -O binary $TARGET rtthread.bin'' @ [bsl] @ ''n' + SIZE + ' $TARGET ''
       @ [bsl] @ ''n'' @ [sq],
      []]
     @ add_other_compiler_stubs @
    [''else:'',
      ''    print('' @ [sq] @ utf8
       [228, 184, 141, 230, 148, 175, 230, 140, 129, 231, 154, 132, 229, 185, 179, 229, 143, 176]
       @ '': ' + PLATFORM)'',
      ''    exit(1)'',
      []])"

definition add_gcc_config :: "host \<Rightarrow> analysis \<Rightarrow> pyexc + string list" where
  "add_gcc_config h a =
     (case determine_fpu (dict_get (cpu a) (PStr ''cortex-m4'')) of
        Inl e \<Rightarrow> Inl e
      | Inr fpu \<Rightarrow> Inr (gcc_lines h a fpu))"

subsection \<open>\<^verbatim>\<open>generate\<close>\<close>

definition dist_handle_banner :: string where
  "dist_handle_banner =
     ''# '' @ utf8 [229, 143, 145, 229, 184, 131, 229, 164, 132, 231, 144, 134, 229, 135, 189, 230, 149, 176]
     @ '' ('' @ utf8 [228, 187, 142, 229, 142, 159, 229, 167, 139, 230, 150, 135, 228, 187, 182, 228, 191, 157, 231, 149, 153]
     @ '')''"

definition dist_handle_lines :: "analyzer \<Rightarrow> string list" where
  "dist_handle_lines self =
     (if dist_handle_code self \<noteq> []
      then [[], rule_line, dist_handle_banner, rule_line, dist_handle_code self]
      else [])"

text \<open>
  \<^verbatim>\<open>generate\<close> returns the new text, or the exception that leaves it (the
  \<^verbatim>\<open>TypeError\<close> of \<^verbatim>\<open>_determine_fpu\<close>).
\<close>

definition generate :: "host \<Rightarrow> analyzer \<Rightarrow> analysis \<Rightarrow> pyexc + string" where
  "generate h self a =
     (let lines0 = add_header h a @ [''import os'', []] @ add_basic_config h a
      in case add_toolchain_config a of
           Inl e \<Rightarrow> Inl e
         | Inr toolchain \<Rightarrow>
             (case add_gcc_config h a of
                Inl e \<Rightarrow> Inl e
              | Inr gcc \<Rightarrow> Inr (py_join [nl] (lines0 @ toolchain @ gcc @ dist_handle_lines self))))"

section \<open>The migration report\<close>

text \<open>
  The first section of \<^verbatim>\<open>generate_migration_report\<close>, the basic information; the rest of
  the report is not modelled. \<^verbatim>\<open>bool(v)\<close> is the truth value of an entry that may be
  missing.
\<close>

definition report_basic_info :: "host \<Rightarrow> analysis \<Rightarrow> string list" where
  "report_basic_info h a =
     [replicate 60 (CHR ''=''),
      ''RT-Thread BSP'' @ utf8 [233, 133, 141, 231, 189, 174, 232, 191, 129, 231, 167, 187, 230, 138, 165, 229, 145, 138],
      replicate 60 (CHR ''=''),
      [],
      utf8 [240, 159, 147, 139] @ '' '' @ utf8 [229, 159, 186, 230, 156, 172, 228, 191, 161, 230, 129, 175],
      replicate 40 (CHR ''-''),
      utf8 [229, 142, 159, 229, 167, 139, 230, 150, 135, 228, 187, 182] @ '': '' @ dict_get (original_file a) ''N/A'',
      utf8 [230, 158, 182, 230, 158, 132] @ '': '' @ py_str h (dict_get (arch a) (PStr ''N/A'')),
      ''CPU: '' @ py_str h (dict_get (cpu a) (PStr ''N/A'')),
      utf8 [229, 142, 159, 229, 167, 139, 231, 188, 150, 232, 175, 145, 229, 153, 168] @ '': '' @ py_str h (dict_get (cross_tool a) (PStr ''N/A'')),
      utf8 [230, 158, 132, 229, 187, 186, 231, 177, 187, 229, 158, 139] @ '': '' @ py_str h (dict_get (build a) (PStr ''N/A'')),
      utf8 [233, 147, 190, 230, 142, 165, 232, 132, 154, 230, 156, 172] @ '': '' @ py_str h (dict_get (linker_script a)
         (PStr (utf8 [230, 156, 170, 230, 137, 190, 229, 136, 176, 239, 188, 140, 228, 189, 191, 231, 148, 168, 233, 187, 152, 232, 174, 164]))),
      ''dist_handle'' @ utf8 [229, 135, 189, 230, 149, 176] @ '': '' @
         (if dict_get (dist_handle_found a) False then utf8 [230, 137, 190, 229, 136, 176] else utf8 [230, 156, 170, 230, 137, 190, 229, 136, 176]),
      []]"

section \<open>The pipeline of \<^verbatim>\<open>main\<close>\<close>

text \<open>
  The file system, as far as \<^verbatim>\<open>main\<close> uses it: a map from the paths of the regular
  files to their texts (a path is the list of its components; directories are no
  entries of the map). What \<^verbatim>\<open>main\<close> does to it is kept as a list of operations, in the
  order in which they happen.
\<close>

type_synonym path = "string list"

type_synonym filesystem = "path \<rightharpoonup> string"

datatype fs_op = MakeDir path | CopyFile path path | WriteText path string

fun apply_op :: "fs_op \<Rightarrow> filesystem \<Rightarrow> filesystem" where
  "apply_op (MakeDir p) fs = fs"
| "apply_op (CopyFile src dst) fs = fs(dst := fs src)"
| "apply_op (WriteText p new) fs = fs(p \<mapsto> new)"

text \<open>How a run ends: it completes, it leaves through \<^verbatim>\<open>sys.exit\<close>, or an exception
  of the analysis or the generation, of the report or of the file system leaves it.\<close>

datatype outcome = Completed | SysExit int | Uncaught pyexc | ReportFailed | FileExistsError
  | FileNotFoundError

text \<open>\<^verbatim>\<open>Path.name\<close>, \<^verbatim>\<open>Path.stem\<close> and \<^verbatim>\<open>str(path)\<close>.\<close>

definition path_final :: "path \<Rightarrow> string" where
  "path_final p = (if p = [] then [] else last p)"

definition path_stem :: "string \<Rightarrow> string" where
  "path_stem name =
     (let i = py_rfind_char name (CHR ''.'') (int (length name))
      in if 0 < i \<and> i < int (length name) - 1 then py_slice name 0 i else name)"

definition path_text :: "path \<Rightarrow> string" where
  "path_text p = py_join ''/'' p"

definition logs_dir_of :: "path \<Rightarrow> path" where
  "logs_dir_of input_file = butlast input_file @ [''migration_logs'']"

definition backup_file_of :: "host \<Rightarrow> path \<Rightarrow> path" where
  "backup_file_of h input_file =
     logs_dir_of input_file @ [path_stem (path_final input_file) @ ''.'' @ now_stamp h @ ''.backup.py'']"

definition report_file_of :: "host \<Rightarrow> path \<Rightarrow> path" where
  "report_file_of h input_file =
     logs_dir_of input_file
       @ [path_stem (path_final input_file) @ ''.'' @ now_stamp h @ ''.migration_report.txt'']"

text \<open>
  \<^verbatim>\<open>main\<close>, from its arguments on: \<open>force\<close> is the option \<^verbatim>\<open>--force\<close>, \<open>answer\<close> says
  whether the user confirms the overwrite, \<open>args\<close> are the remaining arguments.
  \<^verbatim>\<open>generate_migration_report\<close> is taken as a function \<open>report\<close> of its five arguments
  that yields the report, or \<open>None\<close> when it raises. The result is how the run ends, the
  file system it leaves and the operations it has done. The last part of \<^verbatim>\<open>main\<close>,
  which reads the new file back and prints, changes nothing and is left out. Of the
  failures of the operating system, the model has the log directory's name being taken
  by a file and the original being gone when it is read; a copy or a write that the
  system refuses is not modelled.
\<close>

definition main ::
  "host \<Rightarrow> (analyzer \<Rightarrow> analysis \<Rightarrow> string \<Rightarrow> string \<Rightarrow> string \<Rightarrow> string option) \<Rightarrow>
   bool \<Rightarrow> bool \<Rightarrow> path list \<Rightarrow> filesystem \<Rightarrow> outcome \<times> filesystem \<times> fs_op list" where
  "main h report force answer args fs =
     (if length args \<noteq> 1 then (SysExit 1, fs, [])
      else
        (let input_file = hd args in
         if fs input_file = None then (SysExit 1, fs, [])
         else if \<not> force \<and> \<not> answer then (SysExit 0, fs, [])
         else if fs (logs_dir_of input_file) \<noteq> None then (FileExistsError, fs, [])
         else
           (let backup_file = backup_file_of h input_file;
                report_file = report_file_of h input_file;
                ops1 = [MakeDir (logs_dir_of input_file), CopyFile input_file backup_file];
                fs1 = fold apply_op ops1 fs
            in (case fs1 input_file of
                  None \<Rightarrow> (FileNotFoundError, fs1, ops1)
                | Some source \<Rightarrow>
                    (case analyze h (init_analyzer source) of
                       Inl e \<Rightarrow> (Uncaught e, fs1, ops1)
                     | Inr (analyzer, analysis0) \<Rightarrow>
                         (let analysis = analysis0\<lparr>original_file := Some (path_text input_file)\<rparr>
                          in (case generate h analyzer analysis of
                                Inl e \<Rightarrow> (Uncaught e, fs1, ops1)
                              | Inr new_content \<Rightarrow>
                                  (let output_file = input_file;
                                       w = WriteText output_file new_content;
                                       fs2 = apply_op w fs1
                                   in (case report analyzer analysis (path_text backup_file)
                                              (path_text report_file) (path_text output_file) of
                                         None \<Rightarrow> (ReportFailed, fs2, ops1 @ [w])
                                       | Some report_text \<Rightarrow>
                                           (Completed,
                                            apply_op (WriteText report_file report_text) fs2,
                                            ops1 @ [w, WriteText report_file report_text]))))))))))"

section \<open>Notions the properties are stated with\<close>

text \<open>The line of the generated file that selects the cross tool.\<close>

definition cross_tool_line :: string where
  "cross_tool_line = ''CROSS_TOOL = 'gcc'' @ [sq]"

text \<open>
  A host for the examples: \<^verbatim>\<open>ast.parse\<close> answers with the given tree, no linker script
  lies next to the file.
\<close>

definition example_host :: "node option \<Rightarrow> host" where
  "example_host tree =
     \<lparr>ast_parse = (\<lambda>source. tree), ast_unparse = (\<lambda>e. ''<expr>''), path_exists = (\<lambda>p. False),
      str_container = (\<lambda>v. ''<container>''), path_name = (\<lambda>p. p),
      now_text = ''2024-01-01 00:00:00'', now_stamp = ''20240101_000000''\<rparr>"

text \<open>A configuration file with a handler, its syntax tree and the handler's text.\<close>

definition handler_source :: string where
  "handler_source = ''import os'' @ [nl] @ ''def dist_handle(BSP_ROOT, dist_dir):'' @ [nl] @ ''    pass'' @ [nl]"

definition handler_tree :: node where
  "handler_tree = Other [Other [], Other [Other [], Other []]]"

definition handler_text :: string where
  "handler_text = ''def dist_handle(BSP_ROOT, dist_dir):'' @ [nl] @ ''    pass''"

text \<open>
  The assignments to a plain name that \<^verbatim>\<open>_extract_from_ast\<close> meets, in the order of
  \<^verbatim>\<open>ast.walk\<close> (and of the targets within one statement), each with the assigned expression.
\<close>

fun names_of :: "target list \<Rightarrow> string list" where
  "names_of [] = []"
| "names_of (Name n # ts) = n # names_of ts"
| "names_of (OtherTarget # ts) = names_of ts"

fun assignments_of :: "node \<Rightarrow> (string \<times> expr) list" where
  "assignments_of (Assign targets v) = map (\<lambda>n. (n, v)) (names_of targets)"
| "assignments_of (Other ns) = []"

definition assignments :: "node list \<Rightarrow> (string \<times> expr) list" where
  "assignments nodes = concat (map assignments_of nodes)"

text \<open>
  The value of the last assignment in such a list whose name is one of \<open>names\<close>, letter
  for letter, and whose expression is a literal.
\<close>

fun last_literal :: "string list \<Rightarrow> (string \<times> expr) list \<Rightarrow> pyval option" where
  "last_literal names [] = None"
| "last_literal names ((n, e) # xs) =
     (case last_literal names xs of
        Some v \<Rightarrow> Some v
      | None \<Rightarrow> (if n \<in> set names then (case literal_eval e of Inr v \<Rightarrow> Some v | Inl x \<Rightarrow> None)
                 else None))"

definition or_else :: "'a option \<Rightarrow> 'a option \<Rightarrow> 'a option" where
  "or_else found before = (case found of None \<Rightarrow> before | Some v \<Rightarrow> Some v)"

text \<open>What an operation that may raise has left in one entry of its result.\<close>

definition entry_of :: "('s \<Rightarrow> 'a) \<Rightarrow> pyexc + 's \<Rightarrow> pyexc + 'a" where
  "entry_of get res = (case res of Inl e \<Rightarrow> Inl e | Inr s \<Rightarrow> Inr (get s))"

text \<open>Two assignments to \<^verbatim>\<open>ARCH\<close>, and one to \<^verbatim>\<open>Arch\<close>.\<close>

definition twice_source :: string where
  "twice_source = ''ARCH = 'arm'' @ [sq, nl] @ ''ARCH = 'riscv'' @ [sq, nl]"

definition twice_tree :: node where
  "twice_tree =
     Other [Assign [Name ''ARCH''] (Constant (PStr ''arm'')),
            Assign [Name ''ARCH''] (Constant (PStr ''riscv''))]"

definition mixed_case_source :: string where
  "mixed_case_source = ''Arch = 'arm'' @ [sq, nl]"

definition mixed_case_tree :: node where
  "mixed_case_tree = Other [Assign [Name ''Arch''] (Constant (PStr ''arm''))]"

text \<open>A file that sets the CPU and nothing else.\<close>

definition cpu_only_source :: string where
  "cpu_only_source = ''CPU = 'cortex-m4'' @ [sq, nl]"

definition cpu_only_tree :: node where
  "cpu_only_tree = Other [Assign [Name ''CPU''] (Constant (PStr ''cortex-m4''))]"

text \<open>A file whose only assignment is a dictionary display with a list as its key.\<close>

definition list_key_source :: string where
  "list_key_source = ''x = {[]: 1}'' @ [nl]"

definition list_key_tree :: node where
  "list_key_tree = Other [Assign [Name ''x''] (EDict [EList []] [Constant (PInt 1)])]"

text \<open>A file that assigns the compile flags twice, and one whose compile flags hold two
  banned keywords.\<close>

definition two_flags_source :: string where
  "two_flags_source = ''CFLAGS = '--no_cse'' @ [sq, nl] @ ''CFLAGS = '--strict'' @ [sq, nl]"

definition two_keywords_source :: string where
  "two_keywords_source = ''CFLAGS = '--strict --no_cse'' @ [sq, nl]"




text \<open>
  The scenario of the specification: a file that sets the architecture, the CPU and the
  compile flags, and no build type; its syntax tree; and the lines expected in the
  generated file.
\<close>

definition scenario_source :: string where
  "scenario_source =
     ''ARCH='arm'' @ [sq, nl] @ ''CPU='cortex-m4'' @ [sq, nl] @ ''CFLAGS='' @ [dq] @ ''--no_inline -Dgcc -DUSE_HAL -Iinc'' @ [dq, nl]"

definition scenario_tree :: node where
  "scenario_tree =
     Other [Assign [Name ''ARCH''] (Constant (PStr ''arm'')),
            Assign [Name ''CPU''] (Constant (PStr ''cortex-m4'')),
            Assign [Name ''CFLAGS''] (Constant (PStr ''--no_inline -Dgcc -DUSE_HAL -Iinc''))]"

definition scenario_entry :: unsupported where
  "scenario_entry =
     \<lparr>flag = ''CFLAGS'', flag_value = ''--no_inline -Dgcc -DUSE_HAL -Iinc'',
      unsupported_keyword = ''--no_inline''\<rparr>"

definition device_line :: string where
  "device_line =
     ''    DEVICE = ' -mcpu=cortex-m4 -mthumb -mfpu=fpv4-sp-d16 -mfloat-abi=hard -ffunction-sections -fdata-sections'' @ [sq]"

definition cflags_line :: string where
  "cflags_line = ''    CFLAGS = DEVICE + ' -Dgcc -DUSE_HAL -Iinc'' @ [sq]"

definition build_line :: string where
  "build_line = ''BUILD = 'debug'' @ [sq]"

definition debug_block :: "string list" where
  "debug_block = [''    if BUILD == 'debug':'', ''        CFLAGS += ' -O0 -gdwarf-2 -g'' @ [sq]]"

text \<open>A run of \<^verbatim>\<open>main\<close> on the file that sets the CPU only.\<close>

definition example_path :: path where
  "example_path = [''bsp'', ''rtconfig.py'']"

definition example_files :: filesystem where
  "example_files = [example_path \<mapsto> cpu_only_source]"

definition example_report :: "analyzer \<Rightarrow> analysis \<Rightarrow> string \<Rightarrow> string \<Rightarrow> string \<Rightarrow> string option" where
  "example_report self a backup_path report_path output_path = Some ''report''"

section \<open>The flag classifier\<close>





section \<open>The generated text\<close>

lemma py_join_Cons: "ls \<noteq> [] \<Longrightarrow> py_join sep (l # ls) = l @ sep @ py_join sep ls"
  by (cases ls) simp_all

lemma py_join_append:
  "xs \<noteq> [] \<Longrightarrow> ys \<noteq> [] \<Longrightarrow> py_join sep (xs @ ys) = py_join sep xs @ sep @ py_join sep ys"
proof (induction sep xs rule: py_join.induct)
  case (1 sep)
  then show ?case by simp
next
  case (2 sep l)
  then show ?case by (simp add: py_join_Cons)
next
  case (3 sep l m ls)
  then show ?case by simp
qed

lemma py_join_snoc: "xs \<noteq> [] \<Longrightarrow> py_join sep (xs @ [l]) = py_join sep xs @ sep @ l"
  by (simp add: py_join_append)

text \<open>A line that is neither the first nor the last stands between two separators.\<close>

lemma py_join_middle:
  assumes "xs \<noteq> []" "ys \<noteq> []"
  shows "py_join sep (xs @ l # ys) = py_join sep xs @ sep @ l @ sep @ py_join sep ys"
proof -
  have "py_join sep (xs @ l # ys) = py_join sep xs @ sep @ py_join sep (l # ys)"
    using assms by (simp add: py_join_append)
  then show ?thesis using assms by (simp add: py_join_Cons)
qed

lemma generate_Inr:
  "generate h self a = Inr text \<Longrightarrow>
     \<exists>fpu. determine_fpu (dict_get (cpu a) (PStr ''cortex-m4'')) = Inr fpu \<and>
       text = py_join [nl] (add_header h a @ [''import os'', []] @ add_basic_config h a
                @ toolchain_lines @ gcc_lines h a fpu @ dist_handle_lines self)"
  by (auto simp: generate_def add_toolchain_config_def add_gcc_config_def split: sum.splits)

lemma generate_total:
  "hashable (dict_get (cpu a) (PStr ''cortex-m4'')) \<Longrightarrow> \<exists>text. generate h self a = Inr text"
  by (simp add: generate_def add_toolchain_config_def add_gcc_config_def determine_fpu_def)

lemma generate_raises:
  "\<not> hashable (dict_get (cpu a) (PStr ''cortex-m4'')) \<Longrightarrow> generate h self a = Inl TypeError"
  by (simp add: generate_def add_toolchain_config_def add_gcc_config_def determine_fpu_def)

lemma sublist_join_inner:
  assumes "ls = xs @ l # ys" "xs \<noteq> []" "ys \<noteq> []"
  shows "sublist (sep @ l @ sep) (py_join sep ls)"
proof -
  have "py_join sep ls = py_join sep xs @ (sep @ l @ sep) @ py_join sep ys"
    using assms by (simp add: py_join_middle)
  then show ?thesis unfolding sublist_def by blast
qed


text \<open>A block of consecutive lines that is neither at the start nor at the end of the
  text stands in it between two line breaks.\<close>

lemma sublist_join_block:
  assumes "xs \<noteq> []" "ms \<noteq> []" "ys \<noteq> []"
  shows "sublist (sep @ py_join sep ms @ sep) (py_join sep (xs @ ms @ ys))"
proof -
  have "py_join sep (xs @ ms @ ys) = py_join sep xs @ sep @ py_join sep (ms @ ys)"
    using assms by (simp add: py_join_append)
  also have "py_join sep (ms @ ys) = py_join sep ms @ sep @ py_join sep ys"
    using assms by (simp add: py_join_append)
  finally have "py_join sep (xs @ ms @ ys) = py_join sep xs @ (sep @ py_join sep ms @ sep) @ py_join sep ys"
    by simp
  then show ?thesis unfolding sublist_def by blast
qed

lemma generated_basic_block:
  assumes "generate h self a = Inr out" "add_basic_config h a = pre @ block @ post" "block \<noteq> []"
  shows "sublist ([nl] @ py_join [nl] block @ [nl]) out"
proof -
  from generate_Inr [OF assms(1)] obtain fpu where
    eq: "out = py_join [nl] (add_header h a @ [''import os'', []] @ add_basic_config h a
                @ toolchain_lines @ gcc_lines h a fpu @ dist_handle_lines self)"
    by blast
  let ?xs = "add_header h a @ [''import os'', []] @ pre"
  let ?ys = "post @ toolchain_lines @ gcc_lines h a fpu @ dist_handle_lines self"
  have e: "out = py_join [nl] (?xs @ block @ ?ys)"
    unfolding eq assms(2) by simp
  have "sublist ([nl] @ py_join [nl] block @ [nl]) (py_join [nl] (?xs @ block @ ?ys))"
    by (rule sublist_join_block) (simp_all add: assms(3) toolchain_lines_def)
  then show ?thesis unfolding e .
qed

lemma generated_gcc_block:
  assumes "generate h self a = Inr out"
      and "determine_fpu (dict_get (cpu a) (PStr ''cortex-m4'')) = Inr fpu"
      and "gcc_lines h a fpu = pre @ block @ post" "block \<noteq> []" "post \<noteq> []"
  shows "sublist ([nl] @ py_join [nl] block @ [nl]) out"
proof -
  from generate_Inr [OF assms(1)] assms(2) have
    eq: "out = py_join [nl] (add_header h a @ [''import os'', []] @ add_basic_config h a
                @ toolchain_lines @ gcc_lines h a fpu @ dist_handle_lines self)"
    by auto
  let ?xs = "add_header h a @ [''import os'', []] @ add_basic_config h a @ toolchain_lines @ pre"
  let ?ys = "post @ dist_handle_lines self"
  have e: "out = py_join [nl] (?xs @ block @ ?ys)"
    unfolding eq assms(3) by simp
  have "sublist ([nl] @ py_join [nl] block @ [nl]) (py_join [nl] (?xs @ block @ ?ys))"
    by (rule sublist_join_block) (simp_all add: assms(4) assms(5))
  then show ?thesis unfolding e .
qed

lemma cross_tool_update_parts:
  "add_header h (a\<lparr>cross_tool := x\<rparr>) = add_header h a"
  "add_basic_config h (a\<lparr>cross_tool := x\<rparr>) = add_basic_config h a"
  "add_toolchain_config (a\<lparr>cross_tool := x\<rparr>) = add_toolchain_config a"
  "gcc_lines h (a\<lparr>cross_tool := x\<rparr>) fpu = gcc_lines h a fpu"
  by (simp_all add: add_header_def add_basic_config_def add_toolchain_config_def
      gcc_lines_def device_flags_of_def generate_safe_cflags_fixed_def original_cflags_def)

lemma generate_cross_tool_update: "generate h self (a\<lparr>cross_tool := x\<rparr>) = generate h self a"
  by (simp add: generate_def add_gcc_config_def cross_tool_update_parts cong: sum.case_cong)

lemma basic_config_split:
  "add_basic_config h a = take 5 (add_basic_config h a) @ cross_tool_line # drop 6 (add_basic_config h a)"
  by (simp add: add_basic_config_def cross_tool_line_def)

lemma generate_has_cross_tool_line:
  assumes "generate h self a = Inr text"
  shows "sublist ([nl] @ cross_tool_line @ [nl]) text"
proof -
  from generate_Inr [OF assms] obtain fpu where
    eq: "text = py_join [nl] (add_header h a @ [''import os'', []] @ add_basic_config h a
                @ toolchain_lines @ gcc_lines h a fpu @ dist_handle_lines self)"
    by blast
  let ?xs = "add_header h a @ [''import os'', []] @ take 5 (add_basic_config h a)"
  let ?ys = "drop 6 (add_basic_config h a) @ toolchain_lines @ gcc_lines h a fpu @ dist_handle_lines self"
  have "add_header h a @ [''import os'', []] @ add_basic_config h a
          @ toolchain_lines @ gcc_lines h a fpu @ dist_handle_lines self = ?xs @ cross_tool_line # ?ys"
    by (subst basic_config_split) simp
  moreover have "?xs \<noteq> []" by simp
  moreover have "?ys \<noteq> []" by (simp add: toolchain_lines_def)
  ultimately show ?thesis unfolding eq by (rule sublist_join_inner)
qed

lemma dist_handle_last:
  assumes "generate h self a = Inr text" "dist_handle_code self \<noteq> []"
  shows "suffix (nl # dist_handle_code self) text"
proof -
  from generate_Inr [OF assms(1)] obtain fpu where
    eq: "text = py_join [nl] (add_header h a @ [''import os'', []] @ add_basic_config h a
                @ toolchain_lines @ gcc_lines h a fpu @ dist_handle_lines self)"
    by blast
  let ?xs = "add_header h a @ [''import os'', []] @ add_basic_config h a
                @ toolchain_lines @ gcc_lines h a fpu @ [[], rule_line, dist_handle_banner, rule_line]"
  have "text = py_join [nl] (?xs @ [dist_handle_code self])"
    unfolding eq using assms(2) by (simp add: dist_handle_lines_def)
  also have "\<dots> = py_join [nl] ?xs @ [nl] @ dist_handle_code self"
    by (rule py_join_snoc) simp
  finally show ?thesis unfolding suffix_def by simp
qed

lemma span_sublist: "sublist (span s a b) s"
  unfolding span_def
  by (metis sublist_drop sublist_take sublist_order.order_trans)

lemma re_search_sublist: "re_search p s = Some (g0, g1) \<Longrightarrow> sublist g0 s"
proof (induction s)
  case Nil
  then show ?case by (auto split: option.splits simp: span_def)
next
  case (Cons x xs)
  show ?case
  proof (cases "match_at p (x # xs)")
    case None
    with Cons have "sublist g0 xs" by simp
    then show ?thesis by (simp add: sublist_Cons_right)
  next
    case (Some m)
    with Cons.prems have "g0 = span (x # xs) 0 (fst m)"
      by (cases m) auto
    then show ?thesis using span_sublist by simp
  qed
qed

lemma py_slice_sublist: "sublist (py_slice s a b) s"
  unfolding py_slice_def Let_def
  by (metis sublist_drop sublist_take sublist_order.order_trans)

lemma extract_dist_handle_sublist:
  "sublist (dist_handle_code (extract_dist_handle self)) (content self) \<or>
   dist_handle_code (extract_dist_handle self) = dist_handle_code self"
  unfolding extract_dist_handle_def
  by (auto split: option.splits simp: Let_def py_slice_sublist dest: re_search_sublist)

lemma extract_dist_handle_content [simp]: "content (extract_dist_handle self) = content self"
  unfolding extract_dist_handle_def by (auto split: option.splits simp: Let_def)

lemma extract_link_script_keeps [simp]:
  "dist_handle_code (extract_link_script h self) = dist_handle_code self"
  "content (extract_link_script h self) = content self"
  unfolding extract_link_script_def by (auto split: option.splits simp: Let_def)

lemma finish_analysis_keeps:
  "finish_analysis self r = (self', a) \<Longrightarrow>
     dist_handle_code self' = dist_handle_code self \<and>
     dist_handle_found a = Some (dist_handle_code self \<noteq> [])"
  unfolding finish_analysis_def extract_defines_and_includes_fixed_def
  by (auto simp: Let_def)

lemma analyze_dist_handle:
  assumes "analyze h self = Inr (self', a)"
  shows "dist_handle_code self' = dist_handle_code (extract_dist_handle self) \<and>
         dist_handle_found a = Some (dist_handle_code self' \<noteq> [])"
  using assms unfolding analyze_def
  by (auto simp: Let_def split: option.splits sum.splits dest!: finish_analysis_keeps)

lemma finish_analysis_cpu: "finish_analysis self r = (self', a) \<Longrightarrow> cpu a = cpu r"
  unfolding finish_analysis_def analyze_compiler_flags_fixed_def by (auto simp: Let_def)

lemma analyze_handler_example:
  "analyze (example_host (Some handler_tree)) (init_analyzer handler_source)
     = Inr (finish_analysis
         ((extract_link_script (example_host (Some handler_tree))
            (extract_dist_handle (init_analyzer handler_source)))\<lparr>parsed_successfully := True\<rparr>)
         initial_result)"
  by (simp add: analyze_def example_host_def handler_tree_def extract_from_ast_def visit_def)

lemma extract_handler_example:
  "dist_handle_code (extract_dist_handle (init_analyzer handler_source)) = handler_text"
  by code_simp

text \<open>
  C10. Whatever cross tool the analysis has recovered, the generated text is the same,
  and it holds the line \<^verbatim>\<open>CROSS_TOOL = 'gcc'\<close>; the generator returns a text whenever
  the CPU entry can be hashed (as every string and \<^verbatim>\<open>None\<close> can). The recovered value
  is printed by the report, in its tenth line.
\<close>

theorem cross_tool_always_gcc:
  "generate h self (a\<lparr>cross_tool := x\<rparr>) = generate h self a \<and>
   (hashable (dict_get (cpu a) (PStr ''cortex-m4'')) \<longrightarrow> (\<exists>text. generate h self a = Inr text)) \<and>
   (\<forall>text. generate h self a = Inr text \<longrightarrow> sublist ([nl] @ cross_tool_line @ [nl]) text) \<and>
   report_basic_info h a ! 9 =
     utf8 [229, 142, 159, 229, 167, 139, 231, 188, 150, 232, 175, 145, 229, 153, 168] @ '': ''
       @ py_str h (dict_get (cross_tool a) (PStr ''N/A''))"
  using generate_cross_tool_update generate_total generate_has_cross_tool_line
  by (simp add: report_basic_info_def)

theorem cross_tool_always_gcc_witness:
  "\<exists>text. generate (example_host None) (init_analyzer []) initial_result = Inr text \<and>
          generate (example_host None) (init_analyzer [])
            (initial_result\<lparr>cross_tool := Some (PStr ''keil'')\<rparr>) = Inr text \<and>
          sublist ([nl] @ cross_tool_line @ [nl]) text"
proof -
  have hash: "hashable (dict_get (cpu initial_result) (PStr ''cortex-m4''))"
    by (simp add: initial_result_def dict_get_def)
  note fact = cross_tool_always_gcc [where h = "example_host None" and self = "init_analyzer []"
      and a = initial_result and x = "Some (PStr ''keil'')"]
  from fact hash obtain out where
    t: "generate (example_host None) (init_analyzer []) initial_result = Inr out"
    by blast
  with fact show ?thesis by auto
qed

text \<open>
  C6. When the analyzer holds a handler, every text the generator returns ends with a
  line break and the handler's text, unchanged and in full (so the text contains it); the
  generator returns a text whenever the CPU entry can be hashed. The handler that
  \<^verbatim>\<open>analyze\<close> leaves in the analyzer is the one \<^verbatim>\<open>_extract_dist_handle\<close> found, and
  \<^verbatim>\<open>dist_handle_found\<close> says whether it is non-empty.
\<close>

theorem handler_round_trip:
  "(dist_handle_code self \<noteq> [] \<longrightarrow>
      (hashable (dict_get (cpu a) (PStr ''cortex-m4'')) \<longrightarrow> (\<exists>text. generate h self a = Inr text)) \<and>
      (\<forall>text. generate h self a = Inr text \<longrightarrow>
         suffix (nl # dist_handle_code self) text \<and> sublist (dist_handle_code self) text)) \<and>
   (\<forall>self' a'. analyze h self = Inr (self', a') \<longrightarrow>
      dist_handle_code self' = dist_handle_code (extract_dist_handle self) \<and>
      dist_handle_found a' = Some (dist_handle_code self' \<noteq> []))"
proof (intro conjI impI allI)
  fix out
  assume "dist_handle_code self \<noteq> []" and "generate h self a = Inr out"
  then show s: "suffix (nl # dist_handle_code self) out"
    by (simp add: dist_handle_last)
  then have "suffix (dist_handle_code self) out"
    by (auto simp: suffix_def)
  then show "sublist (dist_handle_code self) out"
    by (rule suffix_imp_sublist)
qed (simp_all add: generate_total analyze_dist_handle)

theorem handler_round_trip_witness:
  "\<exists>self a text.
     analyze (example_host (Some handler_tree)) (init_analyzer handler_source) = Inr (self, a) \<and>
     dist_handle_code self = handler_text \<and> dist_handle_found a = Some True \<and>
     generate (example_host (Some handler_tree)) self a = Inr text \<and>
     suffix (nl # handler_text) text \<and> sublist handler_text text"
proof -
  let ?h = "example_host (Some handler_tree)"
  obtain self a where
    an: "analyze ?h (init_analyzer handler_source) = Inr (self, a)" and
    fin: "finish_analysis
            ((extract_link_script ?h (extract_dist_handle (init_analyzer handler_source)))
               \<lparr>parsed_successfully := True\<rparr>) initial_result = (self, a)"
    using analyze_handler_example by (metis surj_pair)
  note fact = handler_round_trip [where self = self and a = a and h = ?h]
  note fact' = handler_round_trip [where self = "init_analyzer handler_source" and a = a and h = ?h]
  from fact' an have code: "dist_handle_code self = handler_text"
    by (simp add: extract_handler_example)
  from fact' an code have found: "dist_handle_found a = Some True"
    by (simp add: handler_text_def)
  have ne: "dist_handle_code self \<noteq> []"
    using code by (simp add: handler_text_def)
  have "cpu a = Some PNone"
    using finish_analysis_cpu [OF fin] by (simp add: initial_result_def)
  then have hash: "hashable (dict_get (cpu a) (PStr ''cortex-m4''))"
    by (simp add: dict_get_def)
  from fact ne hash obtain out where t: "generate ?h self a = Inr out"
    by blast
  with fact ne code have "suffix (nl # handler_text) out \<and> sublist handler_text out"
    by auto
  with an code found t show ?thesis by blast
qed

section \<open>The structural extraction\<close>

lemma for_each_append:
  "for_each f (xs @ ys) st = (case for_each f xs st of Inl e \<Rightarrow> Inl e | Inr st' \<Rightarrow> for_each f ys st')"
  by (induction xs arbitrary: st) (auto split: sum.splits)

definition assign_name :: "host \<Rightarrow> string \<times> expr \<Rightarrow> analysis \<Rightarrow> pyexc + analysis" where
  "assign_name h x result = assign_target h (snd x) (Name (fst x)) result"

lemma for_each_targets:
  "for_each (assign_target h v) targets r = for_each (assign_name h) (map (\<lambda>n. (n, v)) (names_of targets)) r"
proof (induction targets arbitrary: r rule: names_of.induct)
  case 1
  then show ?case by simp
next
  case (2 n ts)
  then show ?case by (simp add: assign_name_def split: sum.splits)
next
  case (3 ts)
  then show ?case by (simp add: assign_target_def)
qed

lemma visit_assignments: "visit h n r = for_each (assign_name h) (assignments_of n) r"
  by (cases n) (simp_all add: visit_def for_each_targets)

lemma for_each_visit:
  "for_each (visit h) nodes r = for_each (assign_name h) (assignments nodes) r"
proof (induction nodes arbitrary: r)
  case Nil
  then show ?case by (simp add: assignments_def)
next
  case (Cons n nodes)
  have "assignments (n # nodes) = assignments_of n @ assignments nodes"
    by (simp add: assignments_def)
  then show ?case
    using Cons by (simp add: for_each_append visit_assignments split: sum.splits)
qed

lemma assign_name_cases:
  assumes "assign_name h (n, e) r = Inr r'"
  shows "(\<exists>v. literal_eval e = Inr v \<and> r' = set_key_variable n v (record_variable n v r)) \<or>
         ((\<exists>x. literal_eval e = Inl x) \<and> r' = record_variable n (PStr (ast_unparse h e)) r)"
  using assms unfolding assign_name_def assign_target_def
  by (auto split: sum.splits if_splits)

text \<open>One entry of the result after the loop, for any entry that an assignment to one of
  \<open>names\<close> sets and nothing else touches.\<close>

lemma entry_after_loop:
  assumes set_get: "\<And>n v r. get (set_key_variable n v r) = (if n \<in> set names then Some v else get r)"
      and rec_get: "\<And>n v r. get (record_variable n v r) = get r"
  shows "for_each (assign_name h) xs r0 = Inr r \<Longrightarrow> get r = or_else (last_literal names xs) (get r0)"
proof (induction xs arbitrary: r0)
  case Nil
  then show ?case by (simp add: or_else_def)
next
  case (Cons x xs)
  obtain n e where x: "x = (n, e)" by (cases x)
  from Cons.prems obtain r1 where
    s1: "assign_name h (n, e) r0 = Inr r1" and s2: "for_each (assign_name h) xs r1 = Inr r"
    by (auto simp: x split: sum.splits)
  from Cons.IH [OF s2] have ih: "get r = or_else (last_literal names xs) (get r1)" .
  from assign_name_cases [OF s1] show ?case
  proof
    assume "\<exists>v. literal_eval e = Inr v \<and> r1 = set_key_variable n v (record_variable n v r0)"
    then obtain v where "literal_eval e = Inr v" "get r1 = (if n \<in> set names then Some v else get r0)"
      by (auto simp: set_get rec_get)
    with ih show ?thesis by (auto simp: x or_else_def split: option.splits)
  next
    assume "(\<exists>x. literal_eval e = Inl x) \<and> r1 = record_variable n (PStr (ast_unparse h e)) r0"
    then obtain y where "literal_eval e = Inl y" "get r1 = get r0"
      by (auto simp: rec_get)
    with ih show ?thesis by (auto simp: x or_else_def split: option.splits)
  qed
qed

lemma record_variable_entries:
  "arch (record_variable n v r) = arch r" "cpu (record_variable n v r) = cpu r"
  "cross_tool (record_variable n v r) = cross_tool r" "platform (record_variable n v r) = platform r"
  "exec_path (record_variable n v r) = exec_path r" "build (record_variable n v r) = build r"
  by (simp_all add: record_variable_def)

lemma set_key_variable_entries:
  "arch (set_key_variable n v r) = (if n \<in> set [''ARCH'', ''arch''] then Some v else arch r)"
  "cpu (set_key_variable n v r) = (if n \<in> set [''CPU'', ''cpu''] then Some v else cpu r)"
  "cross_tool (set_key_variable n v r) = (if n \<in> set [''CROSS_TOOL''] then Some v else cross_tool r)"
  "platform (set_key_variable n v r) = (if n \<in> set [''PLATFORM'', ''platform''] then Some v else platform r)"
  "exec_path (set_key_variable n v r) = (if n \<in> set [''EXEC_PATH'', ''exec_path''] then Some v else exec_path r)"
  "build (set_key_variable n v r) = (if n \<in> set [''BUILD'', ''build''] then Some v else build r)"
  by (auto simp: set_key_variable_def)

lemma loop_raises_only_type_error:
  "\<forall>x \<in> set xs. literal_eval (snd x) \<noteq> Inl TypeError \<Longrightarrow> \<exists>r. for_each (assign_name h) xs r0 = Inr r"
proof (induction xs arbitrary: r0)
  case Nil
  then show ?case by simp
next
  case (Cons x xs)
  then have "literal_eval (snd x) \<noteq> Inl TypeError" by simp
  then have "\<exists>r1. assign_name h x r0 = Inr r1"
    unfolding assign_name_def assign_target_def
    by (cases "literal_eval (snd x)") (auto intro: pyexc.exhaust)
  then obtain r1 where "assign_name h x r0 = Inr r1" ..
  moreover from Cons have "\<exists>r. for_each (assign_name h) xs r1 = Inr r" by simp
  ultimately show ?case by auto
qed

text \<open>
  C1, as the code has it. After \<^verbatim>\<open>_extract_from_ast\<close> has returned, each of the entries
  for the architecture, the CPU, the platform, the exec path and the build type holds the
  value of the last assignment met, in the order of \<^verbatim>\<open>ast.walk\<close>, whose target is the
  upper-case or the lower-case name of the field letter for letter and whose value is a
  literal, or what it held before when there is none; and so does the cross-tool entry
  for the name \<^verbatim>\<open>CROSS_TOOL\<close> when no assignment is to \<^verbatim>\<open>cross_tool\<close>. The function
  returns whenever no assigned expression raises \<^verbatim>\<open>TypeError\<close>.
\<close>

theorem last_assignment_wins:
  "(\<forall>r. extract_from_ast h tree r0 = Inr r \<longrightarrow>
      arch r = or_else (last_literal [''ARCH'', ''arch''] (assignments (walk [tree]))) (arch r0) \<and>
      cpu r = or_else (last_literal [''CPU'', ''cpu''] (assignments (walk [tree]))) (cpu r0) \<and>
      platform r = or_else (last_literal [''PLATFORM'', ''platform''] (assignments (walk [tree]))) (platform r0) \<and>
      exec_path r = or_else (last_literal [''EXEC_PATH'', ''exec_path''] (assignments (walk [tree]))) (exec_path r0) \<and>
      build r = or_else (last_literal [''BUILD'', ''build''] (assignments (walk [tree]))) (build r0) \<and>
      (''cross_tool'' \<notin> fst ` set (assignments (walk [tree])) \<longrightarrow>
         cross_tool r = or_else (last_literal [''CROSS_TOOL''] (assignments (walk [tree]))) (cross_tool r0))) \<and>
   ((\<forall>x \<in> set (assignments (walk [tree])). literal_eval (snd x) \<noteq> Inl TypeError) \<longrightarrow>
      (\<exists>r. extract_from_ast h tree r0 = Inr r))"
proof (intro conjI allI impI)
  fix r
  assume "extract_from_ast h tree r0 = Inr r"
  then have loop: "for_each (assign_name h) (assignments (walk [tree])) r0 = Inr r"
    unfolding extract_from_ast_def for_each_visit .
  show "arch r = or_else (last_literal [''ARCH'', ''arch''] (assignments (walk [tree]))) (arch r0)"
    by (rule entry_after_loop [OF _ _ loop]) (simp_all only: set_key_variable_entries record_variable_entries)
  show "cpu r = or_else (last_literal [''CPU'', ''cpu''] (assignments (walk [tree]))) (cpu r0)"
    by (rule entry_after_loop [OF _ _ loop]) (simp_all only: set_key_variable_entries record_variable_entries)
  show "platform r = or_else (last_literal [''PLATFORM'', ''platform''] (assignments (walk [tree]))) (platform r0)"
    by (rule entry_after_loop [OF _ _ loop]) (simp_all only: set_key_variable_entries record_variable_entries)
  show "exec_path r = or_else (last_literal [''EXEC_PATH'', ''exec_path''] (assignments (walk [tree]))) (exec_path r0)"
    by (rule entry_after_loop [OF _ _ loop]) (simp_all only: set_key_variable_entries record_variable_entries)
  show "build r = or_else (last_literal [''BUILD'', ''build''] (assignments (walk [tree]))) (build r0)"
    by (rule entry_after_loop [OF _ _ loop]) (simp_all only: set_key_variable_entries record_variable_entries)
  show "cross_tool r = or_else (last_literal [''CROSS_TOOL''] (assignments (walk [tree]))) (cross_tool r0)"
    by (rule entry_after_loop [OF _ _ loop]) (simp_all only: set_key_variable_entries record_variable_entries)
next
  assume "\<forall>x \<in> set (assignments (walk [tree])). literal_eval (snd x) \<noteq> Inl TypeError"
  then show "\<exists>r. extract_from_ast h tree r0 = Inr r"
    unfolding extract_from_ast_def for_each_visit by (rule loop_raises_only_type_error)
qed

lemma walk_twice_tree: "assignments (walk [twice_tree])
    = [(''ARCH'', Constant (PStr ''arm'')), (''ARCH'', Constant (PStr ''riscv''))]"
  by (simp add: twice_tree_def assignments_def)

theorem last_assignment_wins_witness:
  "entry_of arch (extract_from_ast (example_host (Some twice_tree)) twice_tree initial_result)
     = Inr (Some (PStr ''riscv'')) \<and>
   entry_of cross_tool (extract_from_ast (example_host (Some twice_tree)) twice_tree initial_result)
     = Inr (Some PNone)"
proof -
  note fact = last_assignment_wins [where h = "example_host (Some twice_tree)" and tree = twice_tree
      and ?r0.0 = initial_result]
  have ok: "\<forall>x \<in> set (assignments (walk [twice_tree])). literal_eval (snd x) \<noteq> Inl TypeError"
    unfolding walk_twice_tree by simp
  have free: "''cross_tool'' \<notin> fst ` set (assignments (walk [twice_tree]))"
    unfolding walk_twice_tree by simp
  from fact ok obtain r where
    r: "extract_from_ast (example_host (Some twice_tree)) twice_tree initial_result = Inr r"
    by blast
  with fact free have
    "arch r = or_else (last_literal [''ARCH'', ''arch''] (assignments (walk [twice_tree]))) (arch initial_result)"
    "cross_tool r = or_else (last_literal [''CROSS_TOOL''] (assignments (walk [twice_tree]))) (cross_tool initial_result)"
    by blast+
  then have "arch r = Some (PStr ''riscv'')" "cross_tool r = Some PNone"
    unfolding walk_twice_tree by (simp_all add: or_else_def initial_result_def)
  with r show ?thesis by (simp add: entry_of_def)
qed

text \<open>
  C1 as the specification words it fails: of two assignments to \<^verbatim>\<open>ARCH\<close> the second
  wins, and a name that differs from \<^verbatim>\<open>ARCH\<close> in the case of its letters is not matched.
\<close>

theorem first_assignment_wins_counterexample:
  "entry_of arch (extract_from_ast (example_host (Some twice_tree)) twice_tree initial_result)
     = Inr (Some (PStr ''riscv'')) \<and>
   entry_of arch (extract_from_ast (example_host (Some mixed_case_tree)) mixed_case_tree initial_result)
     = Inr (Some PNone)"
  by (simp add: entry_of_def extract_from_ast_def visit_def assign_target_def twice_tree_def
      mixed_case_tree_def set_key_variable_def record_variable_def initial_result_def)

section \<open>Exceptions that leave \<^verbatim>\<open>analyze\<close>\<close>

text \<open>
  C4 fails on the code: the \<^verbatim>\<open>TypeError\<close> that \<^verbatim>\<open>ast.literal_eval\<close> raises for a
  dictionary display with a list as its key is not caught by \<^verbatim>\<open>_extract_from_ast\<close>,
  which catches \<^verbatim>\<open>ValueError\<close> and \<^verbatim>\<open>SyntaxError\<close>, nor by \<^verbatim>\<open>analyze\<close>, which catches
  \<^verbatim>\<open>SyntaxError\<close>.
\<close>

theorem analyze_raises_type_error:
  "literal_eval (EDict [EList []] [Constant (PInt 1)]) = Inl TypeError \<and>
   analyze (example_host (Some list_key_tree)) (init_analyzer list_key_source) = Inl TypeError"
  by (simp add: analyze_def example_host_def list_key_tree_def extract_from_ast_def visit_def
      assign_target_def)

section \<open>The default architecture\<close>

lemma analyze_cpu_only:
  "analyze (example_host (Some cpu_only_tree)) (init_analyzer cpu_only_source)
     = Inr (finish_analysis
         ((extract_link_script (example_host (Some cpu_only_tree))
            (extract_dist_handle (init_analyzer cpu_only_source)))\<lparr>parsed_successfully := True\<rparr>)
         (initial_result\<lparr>original_variables := [''CPU'' \<mapsto> PStr ''cortex-m4''],
                         cpu := Some (PStr ''cortex-m4'')\<rparr>))"
  by (simp add: analyze_def example_host_def cpu_only_tree_def extract_from_ast_def visit_def
      assign_target_def set_key_variable_def record_variable_def initial_result_def)

lemma finish_analysis_entries:
  "finish_analysis self r = (self', a) \<Longrightarrow> arch a = arch r \<and> cpu a = cpu r \<and> build a = build r"
  unfolding finish_analysis_def analyze_compiler_flags_fixed_def by (auto simp: Let_def)

text \<open>
  C3 fails on the code for the architecture: \<^verbatim>\<open>analyze\<close> always creates the entry
  \<^verbatim>\<open>arch\<close>, with \<^verbatim>\<open>None\<close> in it, so \<^verbatim>\<open>analysis.get('arch', 'arm')\<close> never yields its
  default and the generated line is \<^verbatim>\<open>ARCH = 'None'\<close>. The build type does default to
  \<^verbatim>\<open>debug\<close>.
\<close>

theorem unset_arch_renders_None:
  "\<exists>self a out. analyze (example_host (Some cpu_only_tree)) (init_analyzer cpu_only_source) = Inr (self, a) \<and>
     arch a = Some PNone \<and> build a = Some (PStr ''debug'') \<and>
     generate (example_host (Some cpu_only_tree)) self a = Inr out \<and>
     sublist ([nl] @ ''ARCH = 'None'' @ [sq] @ [nl]) out \<and>
     sublist ([nl] @ ''BUILD = 'debug'' @ [sq] @ [nl]) out"
proof -
  let ?h = "example_host (Some cpu_only_tree)"
  obtain self a where
    an: "analyze ?h (init_analyzer cpu_only_source) = Inr (self, a)" and
    fin: "finish_analysis
            ((extract_link_script ?h (extract_dist_handle (init_analyzer cpu_only_source)))
               \<lparr>parsed_successfully := True\<rparr>)
            (initial_result\<lparr>original_variables := [''CPU'' \<mapsto> PStr ''cortex-m4''],
                            cpu := Some (PStr ''cortex-m4'')\<rparr>) = (self, a)"
    using analyze_cpu_only by (metis surj_pair)
  from finish_analysis_entries [OF fin] have
    e: "arch a = Some PNone" "build a = Some (PStr ''debug'')" "cpu a = Some (PStr ''cortex-m4'')"
    by (simp_all add: initial_result_def)
  then have "hashable (dict_get (cpu a) (PStr ''cortex-m4''))"
    by (simp add: dict_get_def)
  then obtain out where g: "generate ?h self a = Inr out"
    using generate_total by blast
  have "add_basic_config ?h a
          = take 3 (add_basic_config ?h a) @ [''ARCH = 'None'' @ [sq]] @ drop 4 (add_basic_config ?h a)"
    using e by (simp add: add_basic_config_def dict_get_def py_str_def sq_def)
  from generated_basic_block [OF g this] have l1: "sublist ([nl] @ ''ARCH = 'None'' @ [sq] @ [nl]) out"
    by simp
  have "add_basic_config ?h a
          = take 35 (add_basic_config ?h a) @ [''BUILD = 'debug'' @ [sq]] @ drop 36 (add_basic_config ?h a)"
    using e by (simp add: add_basic_config_def dict_get_def py_str_def sq_def)
  from generated_basic_block [OF g this] have l2: "sublist ([nl] @ ''BUILD = 'debug'' @ [sq] @ [nl]) out"
    by simp
  from an e g l1 l2 show ?thesis by blast
qed

section \<open>The unsupported flags\<close>

lemma check_match_flag: "u \<in> set (check_match name m) \<Longrightarrow>
    flag u = name \<and> flag_value u = clean_flag_value m \<and> flag_value u \<noteq> [] \<and>
    first_unsupported_keyword unsupported_gcc_keywords (flag_value u) = Some (unsupported_keyword u)"
proof -
  assume u: "u \<in> set (check_match name m)"
  let ?v = "clean_flag_value m"
  from u have ne: "?v \<noteq> []"
    by (cases "?v = []") (simp_all add: check_match_def Let_def)
  with u obtain k where k: "first_unsupported_keyword unsupported_gcc_keywords ?v = Some k"
    by (cases "first_unsupported_keyword unsupported_gcc_keywords ?v") (auto simp: check_match_def Let_def)
  with u ne have "u = \<lparr>flag = name, flag_value = ?v, unsupported_keyword = k\<rparr>"
    by (simp add: check_match_def Let_def)
  with ne k show ?thesis by simp
qed

lemma check_match_length: "length (check_match name m) \<le> 1"
  unfolding check_match_def by (auto simp: Let_def split: option.splits)

lemma length_concat_le: "(\<And>x. length (f x) \<le> 1) \<Longrightarrow> length (concat (map f xs)) \<le> length xs"
proof (induction xs)
  case Nil
  then show ?case by simp
next
  case (Cons x xs)
  have "length (f x) \<le> 1" by (rule Cons.prems)
  moreover have "length (concat (map f xs)) \<le> length xs" using Cons by simp
  ultimately show ?case by simp
qed

lemma check_flag_length: "length (check_flag src name) \<le> length (flag_matches src name)"
  unfolding check_flag_def by (rule length_concat_le) (rule check_match_length)

lemma check_flag_entry:
  assumes "u \<in> set (check_flag src name)"
  shows "flag u = name \<and> (\<exists>m \<in> set (flag_matches src name). flag_value u = clean_flag_value m) \<and>
         flag_value u \<noteq> [] \<and>
         first_unsupported_keyword unsupported_gcc_keywords (flag_value u) = Some (unsupported_keyword u)"
proof -
  from assms obtain m where "m \<in> set (flag_matches src name)" "u \<in> set (check_match name m)"
    unfolding check_flag_def by auto
  then show ?thesis using check_match_flag by blast
qed

lemma filter_check_flag_same: "filter (\<lambda>u. flag u = name) (check_flag src name) = check_flag src name"
  by (rule filter_True) (simp add: check_flag_entry)

lemma filter_check_flag_other:
  "name \<noteq> other \<Longrightarrow> filter (\<lambda>u. flag u = name) (check_flag src other) = []"
  by (rule filter_False) (auto dest: check_flag_entry)

lemma filter_entries:
  assumes "name \<in> set flag_names"
  shows "filter (\<lambda>u. flag u = name) (concat (map (check_flag src) flag_names)) = check_flag src name"
proof -
  from assms consider "name = ''CFLAGS''" | "name = ''AFLAGS''" | "name = ''LFLAGS''"
    by (auto simp: flag_names_def)
  then show ?thesis
    by cases (simp_all add: flag_names_def filter_check_flag_same filter_check_flag_other)
qed

lemma first_keyword_position:
  assumes "first_unsupported_keyword kws v = Some k"
  shows "\<exists>i < length kws. kws ! i = k \<and> py_in k v \<and> (\<forall>j < i. \<not> py_in (kws ! j) v)"
  using assms unfolding first_unsupported_keyword_def find_Some_iff by blast

text \<open>
  C2, as the code has it. The sequence of unsupported entries holds, for each of the three
  flag names, at most one entry per assignment that the flag's pattern matches (so a
  name that is assigned several times can have several entries); every entry belongs to
  one of these matches, and its keyword is the first keyword of the table, in the order
  of the table, that occurs in the cleaned value, whatever else the value holds.
\<close>

theorem one_entry_per_assignment:
  "\<forall>us. unsupported_configs (analyze_compiler_flags_fixed self r) = Some us \<longrightarrow>
     (\<forall>name \<in> set flag_names.
        length (filter (\<lambda>u. flag u = name) us) \<le> length (flag_matches (content self) name)) \<and>
     (\<forall>u \<in> set us.
        flag u \<in> set flag_names \<and>
        (\<exists>m \<in> set (flag_matches (content self) (flag u)). flag_value u = clean_flag_value m) \<and>
        (\<exists>i < length unsupported_gcc_keywords.
           unsupported_gcc_keywords ! i = unsupported_keyword u \<and>
           py_in (unsupported_keyword u) (flag_value u) \<and>
           (\<forall>j < i. \<not> py_in (unsupported_gcc_keywords ! j) (flag_value u))))"
proof (intro allI impI conjI ballI)
  fix us name
  assume us: "unsupported_configs (analyze_compiler_flags_fixed self r) = Some us"
    and name: "name \<in> set flag_names"
  from us have eq: "us = concat (map (check_flag (content self)) flag_names)"
    by (simp add: analyze_compiler_flags_fixed_def)
  show "length (filter (\<lambda>u. flag u = name) us) \<le> length (flag_matches (content self) name)"
    unfolding eq filter_entries [OF name] by (rule check_flag_length)
next
  fix us u
  assume us: "unsupported_configs (analyze_compiler_flags_fixed self r) = Some us"
    and u: "u \<in> set us"
  from us have eq: "us = concat (map (check_flag (content self)) flag_names)"
    by (simp add: analyze_compiler_flags_fixed_def)
  with u obtain name where name: "name \<in> set flag_names" and mem: "u \<in> set (check_flag (content self) name)"
    by auto
  note e = check_flag_entry [OF mem]
  from e name show "flag u \<in> set flag_names" by simp
  from e show "\<exists>m \<in> set (flag_matches (content self) (flag u)). flag_value u = clean_flag_value m"
    by simp
  from e show "\<exists>i < length unsupported_gcc_keywords.
           unsupported_gcc_keywords ! i = unsupported_keyword u \<and>
           py_in (unsupported_keyword u) (flag_value u) \<and>
           (\<forall>j < i. \<not> py_in (unsupported_gcc_keywords ! j) (flag_value u))"
    using first_keyword_position by blast
qed

lemma two_keywords_entries:
  "unsupported_configs (analyze_compiler_flags_fixed (init_analyzer two_keywords_source) initial_result)
     = Some [\<lparr>flag = ''CFLAGS'', flag_value = ''--strict --no_cse'', unsupported_keyword = ''--no_cse''\<rparr>]"
  by code_simp

theorem one_entry_per_assignment_witness:
  "length (flag_matches two_keywords_source ''CFLAGS'') = 1 \<and>
   py_in ''--strict'' ''--strict --no_cse'' \<and>
   (\<exists>m \<in> set (flag_matches two_keywords_source ''CFLAGS''). ''--strict --no_cse'' = clean_flag_value m) \<and>
   (\<exists>i < length unsupported_gcc_keywords.
       unsupported_gcc_keywords ! i = ''--no_cse'' \<and> py_in ''--no_cse'' ''--strict --no_cse'' \<and>
       (\<forall>j < i. \<not> py_in (unsupported_gcc_keywords ! j) ''--strict --no_cse''))"
proof -
  let ?u = "\<lparr>flag = ''CFLAGS'', flag_value = ''--strict --no_cse'', unsupported_keyword = ''--no_cse''\<rparr>"
  note fact = one_entry_per_assignment [where self = "init_analyzer two_keywords_source"
      and r = initial_result, rule_format, OF two_keywords_entries]
  have c: "content (init_analyzer two_keywords_source) = two_keywords_source"
    by (simp add: init_analyzer_def)
  have n: "length (flag_matches two_keywords_source ''CFLAGS'') = 1"
    by code_simp
  have p: "py_in ''--strict'' ''--strict --no_cse''"
    by code_simp
  from fact have "\<forall>u \<in> set [?u].
        (\<exists>m \<in> set (flag_matches two_keywords_source (flag u)). flag_value u = clean_flag_value m) \<and>
        (\<exists>i < length unsupported_gcc_keywords.
           unsupported_gcc_keywords ! i = unsupported_keyword u \<and>
           py_in (unsupported_keyword u) (flag_value u) \<and>
           (\<forall>j < i. \<not> py_in (unsupported_gcc_keywords ! j) (flag_value u)))"
    unfolding c by blast
  with n p show ?thesis by simp
qed

text \<open>
  C2 as the specification words it fails: a file that assigns \<^verbatim>\<open>CFLAGS\<close> twice, each
  time with a banned keyword, gets two entries of the compile kind.
\<close>

theorem one_entry_per_kind_counterexample:
  "map_option (map (\<lambda>u. (flag u, unsupported_keyword u)))
     (unsupported_configs (analyze_compiler_flags_fixed (init_analyzer two_flags_source) initial_result))
   = Some [(''CFLAGS'', ''--no_cse''), (''CFLAGS'', ''--strict'')]"
  by code_simp

section \<open>The macro defines\<close>

lemma first_some_hit: "f x = Some y \<Longrightarrow> first_some f (x # xs) = Some y"
  by simp

















lemma keep_define_iff:
  "keep_define w \<longleftrightarrow> w \<noteq> [] \<and> w \<noteq> ''gcc'' \<and> w \<noteq> ''__MICROLIB'' \<and> w \<noteq> ''ewarm''"
  by (auto simp: keep_define_def unsupported_gcc_keywords_def)




section \<open>The scenario of the specification\<close>

lemma extract_dist_handle_sets [simp]:
  "all_defines (extract_dist_handle self) = all_defines self"
  "all_includes (extract_dist_handle self) = all_includes self"
  unfolding extract_dist_handle_def by (auto split: option.splits simp: Let_def)

lemma extract_link_script_sets [simp]:
  "all_defines (extract_link_script h self) = all_defines self"
  "all_includes (extract_link_script h self) = all_includes self"
  unfolding extract_link_script_def by (auto split: option.splits simp: Let_def)

lemma init_analyzer_fields [simp]:
  "content (init_analyzer s) = s" "all_defines (init_analyzer s) = {}"
  "all_includes (init_analyzer s) = {}"
  by (simp_all add: init_analyzer_def)

lemma scenario_flags: "concat (map (check_flag scenario_source) flag_names) = [scenario_entry]"
  by code_simp

lemma scenario_defines: "re_findall define_pattern scenario_source = [''gcc'', ''USE_HAL'']"
  by code_simp

lemma scenario_includes: "re_findall include_pattern scenario_source = [''inc'']"
  by code_simp

lemma scenario_keep: "keep_include ''inc''" "py_strip ''inc'' = ''inc''"
  by code_simp+

lemma scenario_useful: "useful_flags (filtered_flags ''--no_inline -Dgcc -DUSE_HAL -Iinc'') = []"
  by code_simp

lemma scenario_extract:
  "extract_from_ast h scenario_tree initial_result
     = Inr (initial_result
         \<lparr>original_variables :=
             [''ARCH'' \<mapsto> PStr ''arm'', ''CPU'' \<mapsto> PStr ''cortex-m4'',
              ''CFLAGS'' \<mapsto> PStr ''--no_inline -Dgcc -DUSE_HAL -Iinc''],
          arch := Some (PStr ''arm''), cpu := Some (PStr ''cortex-m4'')\<rparr>)"
  by (simp add: scenario_tree_def extract_from_ast_def visit_def assign_target_def
      set_key_variable_def record_variable_def initial_result_def)

lemma scenario_cflags:
  assumes "a_defines a = Some {''USE_HAL''}" "a_includes a = Some {''inc''}"
      and "unsupported_configs a = Some [scenario_entry]"
  shows "generate_safe_cflags_fixed a = '' -Dgcc -DUSE_HAL -Iinc''"
  using assms
  by (simp add: generate_safe_cflags_fixed_def dict_get_def original_cflags_def scenario_entry_def
      scenario_useful scenario_keep)

text \<open>
  C8. For the scenario's file the analysis records exactly one unsupported entry, for
  \<^verbatim>\<open>--no_inline\<close>, the define \<^verbatim>\<open>USE_HAL\<close> and the include path \<^verbatim>\<open>inc\<close>, and the build
  type \<^verbatim>\<open>debug\<close>; the generated text holds the device line with the FPU flags of the
  cortex-m4 and the hard float ABI, the compile flags with \<^verbatim>\<open>-DUSE_HAL\<close> and \<^verbatim>\<open>-Iinc\<close>,
  the line \<^verbatim>\<open>BUILD = 'debug'\<close>, and the two lines that append
  \<^verbatim>\<open> -O0 -gdwarf-2 -g\<close> to the compile flags of a debug build.
\<close>

theorem scenario_cortex_m4:
  "ast_parse h scenario_source = Some scenario_tree \<longrightarrow>
   (\<exists>self a out.
      analyze h (init_analyzer scenario_source) = Inr (self, a) \<and>
      unsupported_configs a = Some [scenario_entry] \<and>
      a_defines a = Some {''USE_HAL''} \<and> a_includes a = Some {''inc''} \<and>
      build a = Some (PStr ''debug'') \<and>
      generate h self a = Inr out \<and>
      sublist ([nl] @ device_line @ [nl]) out \<and>
      sublist ([nl] @ cflags_line @ [nl]) out \<and>
      sublist ([nl] @ build_line @ [nl]) out \<and>
      sublist ([nl] @ py_join [nl] debug_block @ [nl]) out)"
proof
  assume parse: "ast_parse h scenario_source = Some scenario_tree"
  let ?self2 = "extract_link_script h (extract_dist_handle (init_analyzer scenario_source))"
  let ?r = "initial_result
         \<lparr>original_variables :=
             [''ARCH'' \<mapsto> PStr ''arm'', ''CPU'' \<mapsto> PStr ''cortex-m4'',
              ''CFLAGS'' \<mapsto> PStr ''--no_inline -Dgcc -DUSE_HAL -Iinc''],
          arch := Some (PStr ''arm''), cpu := Some (PStr ''cortex-m4'')\<rparr>"
  have an: "analyze h (init_analyzer scenario_source)
              = Inr (finish_analysis (?self2\<lparr>parsed_successfully := True\<rparr>) ?r)"
    using parse by (simp add: analyze_def Let_def scenario_extract)
  obtain self a where fin: "finish_analysis (?self2\<lparr>parsed_successfully := True\<rparr>) ?r = (self, a)"
    by (metis surj_pair)
  from fin have u: "unsupported_configs a = Some [scenario_entry]"
    by (auto simp: finish_analysis_def analyze_compiler_flags_fixed_def Let_def scenario_flags)
  from fin have d: "a_defines a = Some {''USE_HAL''}"
    by (auto simp: finish_analysis_def extract_defines_and_includes_fixed_def Let_def
        scenario_defines keep_define_iff)
  from fin have i: "a_includes a = Some {''inc''}"
    by (auto simp: finish_analysis_def extract_defines_and_includes_fixed_def Let_def
        scenario_includes scenario_keep)
  from finish_analysis_entries [OF fin] have
    e: "cpu a = Some (PStr ''cortex-m4'')" "build a = Some (PStr ''debug'')"
    by (simp_all add: initial_result_def)
  have fpu: "determine_fpu (dict_get (cpu a) (PStr ''cortex-m4'')) = Inr ''fpv4-sp-d16''"
    using e by (simp add: determine_fpu_def dict_get_def fpu_map_def)
  then obtain out where g: "generate h self a = Inr out"
    by (auto simp: generate_def add_toolchain_config_def add_gcc_config_def)
  have dev: "device_flags_of h a ''fpv4-sp-d16''
      = '' -mcpu=cortex-m4 -mthumb -mfpu=fpv4-sp-d16 -mfloat-abi=hard -ffunction-sections -fdata-sections''"
    using e by (simp add: device_flags_of_def dict_get_def py_str_def)
  note cf = scenario_cflags [OF d i u]
  let ?g = "gcc_lines h a ''fpv4-sp-d16''"
  have "?g = take 1 ?g @ [device_line] @ drop 2 ?g"
    by (simp add: gcc_lines_def Let_def dev cf device_line_def sq_def)
  from generated_gcc_block [OF g fpu this] have l1: "sublist ([nl] @ device_line @ [nl]) out"
    by (simp add: gcc_lines_def Let_def)
  have "?g = take 2 ?g @ [cflags_line] @ drop 3 ?g"
    by (simp add: gcc_lines_def Let_def dev cf cflags_line_def sq_def)
  from generated_gcc_block [OF g fpu this] have l2: "sublist ([nl] @ cflags_line @ [nl]) out"
    by (simp add: gcc_lines_def Let_def)
  have "?g = take 8 ?g @ debug_block @ drop 10 ?g"
    by (simp add: gcc_lines_def Let_def debug_block_def sq_def)
  from generated_gcc_block [OF g fpu this] have l4: "sublist ([nl] @ py_join [nl] debug_block @ [nl]) out"
    by (simp add: gcc_lines_def Let_def debug_block_def)
  have "add_basic_config h a = take 35 (add_basic_config h a) @ [build_line] @ drop 36 (add_basic_config h a)"
    using e by (simp add: add_basic_config_def dict_get_def py_str_def build_line_def sq_def)
  from generated_basic_block [OF g this] have l3: "sublist ([nl] @ build_line @ [nl]) out"
    by simp
  from an fin u d i e g l1 l2 l3 l4 show "\<exists>self a out.
      analyze h (init_analyzer scenario_source) = Inr (self, a) \<and>
      unsupported_configs a = Some [scenario_entry] \<and>
      a_defines a = Some {''USE_HAL''} \<and> a_includes a = Some {''inc''} \<and>
      build a = Some (PStr ''debug'') \<and>
      generate h self a = Inr out \<and>
      sublist ([nl] @ device_line @ [nl]) out \<and>
      sublist ([nl] @ cflags_line @ [nl]) out \<and>
      sublist ([nl] @ build_line @ [nl]) out \<and>
      sublist ([nl] @ py_join [nl] debug_block @ [nl]) out"
    by (intro exI [of _ self] exI [of _ a] exI [of _ out]) simp
qed

theorem scenario_cortex_m4_witness:
  "\<exists>self a out.
      analyze (example_host (Some scenario_tree)) (init_analyzer scenario_source) = Inr (self, a) \<and>
      unsupported_configs a = Some [scenario_entry] \<and>
      generate (example_host (Some scenario_tree)) self a = Inr out \<and>
      sublist ([nl] @ device_line @ [nl]) out \<and>
      sublist ([nl] @ cflags_line @ [nl]) out \<and>
      sublist ([nl] @ py_join [nl] debug_block @ [nl]) out"
proof -
  have "ast_parse (example_host (Some scenario_tree)) scenario_source = Some scenario_tree"
    by (simp add: example_host_def)
  with scenario_cortex_m4 [of "example_host (Some scenario_tree)"] show ?thesis
    by blast
qed

section \<open>Backup before overwrite\<close>

lemma backup_not_input: "backup_file_of h p \<noteq> p"
proof
  assume "backup_file_of h p = p"
  then have "length (backup_file_of h p) = length p" by simp
  then show False by (cases p rule: rev_cases) (simp_all add: backup_file_of_def logs_dir_of_def)
qed

lemma report_not_backup: "report_file_of h p \<noteq> backup_file_of h p"
  by (simp add: report_file_of_def backup_file_of_def)

lemma report_not_input: "report_file_of h p \<noteq> p"
proof
  assume "report_file_of h p = p"
  then have "length (report_file_of h p) = length p" by simp
  then show False by (cases p rule: rev_cases) (simp_all add: report_file_of_def logs_dir_of_def)
qed

text \<open>
  C9. In every run of \<^verbatim>\<open>main\<close> the operations on the file system are an initial part
  of: make the log directory, copy the original to the backup, write the generated text
  over the original, write the report. So the original is written only after the backup
  copy, and only with a text that \<^verbatim>\<open>generate\<close> has returned for the analysis of the
  original; and once the copy is made the backup holds, at the end of the run, what the
  original held before the run.
\<close>

theorem backup_before_overwrite:
  "main h report force answer args fs = (res, fs', ops) \<longrightarrow>
     fs' = fold apply_op ops fs \<and>
     (\<exists>new rep. prefix ops
        [MakeDir (logs_dir_of (hd args)), CopyFile (hd args) (backup_file_of h (hd args)),
         WriteText (hd args) new, WriteText (report_file_of h (hd args)) rep]) \<and>
     (\<forall>new. WriteText (hd args) new \<in> set ops \<longrightarrow>
        CopyFile (hd args) (backup_file_of h (hd args)) \<in> set ops \<and>
        (\<exists>source self a. fs (hd args) = Some source \<and>
           analyze h (init_analyzer source) = Inr (self, a) \<and>
           generate h self (a\<lparr>original_file := Some (path_text (hd args))\<rparr>) = Inr new)) \<and>
     (CopyFile (hd args) (backup_file_of h (hd args)) \<in> set ops \<longrightarrow>
        fs' (backup_file_of h (hd args)) = fs (hd args)) \<and>
     (res = Completed \<longrightarrow> (\<exists>new. WriteText (hd args) new \<in> set ops \<and> fs' (hd args) = Some new))"
proof
  assume run: "main h report force answer args fs = (res, fs', ops)"
  let ?in = "hd args"
  let ?bk = "backup_file_of h ?in"
  let ?rp = "report_file_of h ?in"
  let ?ops1 = "[MakeDir (logs_dir_of ?in), CopyFile ?in ?bk]"
  note ne = backup_not_input [of h ?in] report_not_backup [of h ?in] report_not_input [of h ?in]
  show "fs' = fold apply_op ops fs \<and>
     (\<exists>new rep. prefix ops [MakeDir (logs_dir_of ?in), CopyFile ?in ?bk, WriteText ?in new, WriteText ?rp rep]) \<and>
     (\<forall>new. WriteText ?in new \<in> set ops \<longrightarrow>
        CopyFile ?in ?bk \<in> set ops \<and>
        (\<exists>source self a. fs ?in = Some source \<and>
           analyze h (init_analyzer source) = Inr (self, a) \<and>
           generate h self (a\<lparr>original_file := Some (path_text ?in)\<rparr>) = Inr new)) \<and>
     (CopyFile ?in ?bk \<in> set ops \<longrightarrow> fs' ?bk = fs ?in) \<and>
     (res = Completed \<longrightarrow> (\<exists>new. WriteText ?in new \<in> set ops \<and> fs' ?in = Some new))"
  proof (cases "length args \<noteq> 1 \<or> fs ?in = None \<or> (\<not> force \<and> \<not> answer) \<or> fs (logs_dir_of ?in) \<noteq> None")
    case True
    with run have "ops = []" "fs' = fs" "res \<noteq> Completed"
      by (auto simp: main_def Let_def split: if_splits)
    then show ?thesis by simp
  next
    case False
    then obtain source where src: "fs ?in = Some source" by auto
    have fs1: "fold apply_op ?ops1 fs ?in = Some source"
      using src ne by simp
    show ?thesis
    proof (cases "analyze h (init_analyzer source)")
      case (Inl e)
      with run False src fs1 have "ops = ?ops1" "fs' = fold apply_op ?ops1 fs" "res \<noteq> Completed"
        by (auto simp: main_def Let_def)
      then show ?thesis using ne by (auto simp: prefix_def)
    next
      case (Inr sa)
      obtain self a where sa: "sa = (self, a)" by (cases sa)
      let ?a = "a\<lparr>original_file := Some (path_text ?in)\<rparr>"
      show ?thesis
      proof (cases "generate h self ?a")
        case (Inl e)
        with run False src fs1 Inr sa have "ops = ?ops1" "fs' = fold apply_op ?ops1 fs" "res \<noteq> Completed"
          by (auto simp: main_def Let_def)
        then show ?thesis using ne by (auto simp: prefix_def)
      next
        case g: (Inr new)
        show ?thesis
        proof (cases "report self ?a (path_text ?bk) (path_text ?rp) (path_text ?in)")
          case None
          with run False src fs1 Inr sa g have
            "ops = ?ops1 @ [WriteText ?in new]" "fs' = fold apply_op (?ops1 @ [WriteText ?in new]) fs"
            "res \<noteq> Completed"
            by (auto simp: main_def Let_def)
          then show ?thesis using ne src Inr sa g by (auto simp: prefix_def)
        next
          case (Some rep)
          with run False src fs1 Inr sa g have
            "ops = ?ops1 @ [WriteText ?in new, WriteText ?rp rep]"
            "fs' = fold apply_op (?ops1 @ [WriteText ?in new, WriteText ?rp rep]) fs"
            by (auto simp: main_def Let_def)
          then show ?thesis using ne src Inr sa g by (auto simp: prefix_def)
        qed
      qed
    qed
  qed
qed

theorem backup_before_overwrite_witness:
  "\<exists>fs' ops new.
     main (example_host (Some cpu_only_tree)) example_report True False [example_path] example_files
       = (Completed, fs', ops) \<and>
     ops = [MakeDir [''bsp'', ''migration_logs''],
            CopyFile example_path (backup_file_of (example_host (Some cpu_only_tree)) example_path),
            WriteText example_path new,
            WriteText (report_file_of (example_host (Some cpu_only_tree)) example_path) ''report''] \<and>
     fs' (backup_file_of (example_host (Some cpu_only_tree)) example_path) = Some cpu_only_source \<and>
     fs' example_path = Some new"
proof -
  let ?h = "example_host (Some cpu_only_tree)"
  let ?bk = "backup_file_of ?h example_path"
  let ?rp = "report_file_of ?h example_path"
  obtain self a where
    an: "analyze ?h (init_analyzer cpu_only_source) = Inr (self, a)" and
    fin: "finish_analysis
            ((extract_link_script ?h (extract_dist_handle (init_analyzer cpu_only_source)))
               \<lparr>parsed_successfully := True\<rparr>)
            (initial_result\<lparr>original_variables := [''CPU'' \<mapsto> PStr ''cortex-m4''],
                            cpu := Some (PStr ''cortex-m4'')\<rparr>) = (self, a)"
    using analyze_cpu_only by (metis surj_pair)
  let ?a = "a\<lparr>original_file := Some (path_text example_path)\<rparr>"
  from finish_analysis_entries [OF fin] have "hashable (dict_get (cpu ?a) (PStr ''cortex-m4''))"
    by (simp add: dict_get_def)
  then obtain new where g: "generate ?h self ?a = Inr new"
    using generate_total by blast
  let ?ops = "[MakeDir [''bsp'', ''migration_logs''], CopyFile example_path ?bk,
               WriteText example_path new, WriteText ?rp ''report'']"
  have logs: "logs_dir_of example_path = [''bsp'', ''migration_logs'']"
    by (simp add: logs_dir_of_def example_path_def)
  have free: "example_files [''bsp'', ''migration_logs''] = None"
    by (simp add: example_files_def example_path_def)
  have here: "example_files example_path = Some cpu_only_source"
    by (simp add: example_files_def)
  have run: "main ?h example_report True False [example_path] example_files
               = (Completed, fold apply_op ?ops example_files, ?ops)"
    using backup_not_input [of ?h example_path]
    by (simp add: main_def Let_def logs free here an g example_report_def)
  note fact = backup_before_overwrite [where h = ?h and report = example_report and force = True
      and answer = False and args = "[example_path]" and fs = example_files and res = Completed
      and fs' = "fold apply_op ?ops example_files" and ops = ?ops]
  from fact run have "fold apply_op ?ops example_files ?bk = Some cpu_only_source"
    by (simp add: here)
  moreover from fact run obtain new' where
    "WriteText example_path new' \<in> set ?ops" "fold apply_op ?ops example_files example_path = Some new'"
    by auto
  then have "fold apply_op ?ops example_files example_path = Some new"
    using report_not_input [of ?h example_path] by auto
  ultimately show ?thesis using run by blast
qed

end
